theory Spec2Isabelle
  imports Main
begin

section \<open>Errors and JavaScript values\<close>

text \<open>
  Everything the handler of \<^verbatim>\<open>app.on('check_suite.completed', ...)\<close> in \<^verbatim>\<open>src/app.ts\<close> can
  catch or let escape: an error of the API client (it carries an HTTP \<^verbatim>\<open>status\<close>), a
  \<^verbatim>\<open>z.ZodError\<close>, a \<^verbatim>\<open>TypeError\<close> of the runtime (a property read on \<^verbatim>\<open>null\<close>), and any
  other \<^verbatim>\<open>Error\<close> with its message.
\<close>

datatype error =
    RequestError int
  | ZodError
  | TypeError
  | Error string

fun error_status :: "error \<Rightarrow> int option" where
  "error_status (RequestError s) = Some s"
| "error_status _ = None"

text \<open>
  The value \<^verbatim>\<open>yaml.parse\<close> returns is not validated by the code, so it is kept as an
  untyped JavaScript value. Numbers are integers here.
\<close>

datatype js =
    JUndefined
  | JNull
  | JBool bool
  | JNum int
  | JStr string
  | JArr "js list"
  | JObj "(string \<times> js) list"

text \<open>\<^verbatim>\<open>!v\<close> is \<open>\<not> truthy v\<close>.\<close>

fun truthy :: "js \<Rightarrow> bool" where
  "truthy JUndefined = False"
| "truthy JNull = False"
| "truthy (JBool b) = b"
| "truthy (JNum n) = (n \<noteq> 0)"
| "truthy (JStr s) = (s \<noteq> [])"
| "truthy (JArr xs) = True"
| "truthy (JObj kvs) = True"

text \<open>
  \<^verbatim>\<open>v.k\<close> and \<^verbatim>\<open>v[k]\<close> for the keys the code reads (\<^verbatim>\<open>enable\<close> and the ecosystem names,
  none of which is a member of a built-in prototype): a \<^verbatim>\<open>TypeError\<close> on \<^verbatim>\<open>null\<close> and
  \<^verbatim>\<open>undefined\<close>, the own property of an object, \<^verbatim>\<open>undefined\<close> otherwise.
\<close>

fun get_prop :: "js \<Rightarrow> string \<Rightarrow> error + js" where
  "get_prop JUndefined k = Inl TypeError"
| "get_prop JNull k = Inl TypeError"
| "get_prop (JObj kvs) k = Inr (case map_of kvs k of None \<Rightarrow> JUndefined | Some v \<Rightarrow> v)"
| "get_prop (JBool b) k = Inr JUndefined"
| "get_prop (JNum n) k = Inr JUndefined"
| "get_prop (JStr s) k = Inr JUndefined"
| "get_prop (JArr xs) k = Inr JUndefined"

text \<open>\<^verbatim>\<open>s.includes(e)\<close>: \<open>e\<close> occurs in \<open>s\<close> as a contiguous substring.\<close>

fun includes_str :: "string \<Rightarrow> string \<Rightarrow> bool" where
  "includes_str [] e = (e = [])"
| "includes_str (c # s) e = (take (length e) (c # s) = e \<or> includes_str s e)"

section \<open>Constants of \<^verbatim>\<open>app.ts\<close>\<close>

definition ecosystems :: "string list" where
  "ecosystems =
    [''bazel'', ''bun'', ''bundler'', ''cargo'', ''composer'', ''conda'', ''devcontainers'',
     ''docker'', ''docker_compose'', ''dotnet_sdk'', ''elm'', ''git_submodules'',
     ''github_actions'', ''go_modules'', ''gradle'', ''helm'', ''hex'', ''julia'', ''maven'',
     ''npm_and_yarn'', ''nuget'', ''pub'', ''python'', ''rust_toolchain'', ''swift'',
     ''terraform'', ''uv'', ''vcpkg'']"

definition dependabotUserId :: int where
  "dependabotUserId = 49699333"

definition stewardUserId :: int where
  "stewardUserId = 241759641"

definition stewardYmlFileName :: string where
  "stewardYmlFileName = ''.steward.yml''"

definition must_be_a_file :: string where
  "must_be_a_file = ''Configuration invalid: `.steward.yml` must be a file.''"

section \<open>The webhook payload and the answers of the API\<close>

text \<open>
  One element of \<^verbatim>\<open>payload.check_suite.pull_requests\<close>, with the fields the handler reads:
  \<^verbatim>\<open>number\<close>, \<^verbatim>\<open>base.ref\<close>, \<^verbatim>\<open>base.repo.id\<close>, \<^verbatim>\<open>head.ref\<close>, \<^verbatim>\<open>head.repo.id\<close>.
\<close>

record pull_request =
  number :: int
  base_ref :: string
  base_repo_id :: int
  head_ref :: string
  head_repo_id :: int

record payload =
  owner :: string
  repo :: string
  pull_requests :: "pull_request list"

text \<open>\<^verbatim>\<open>repos.get\<close>: the three optional flags (\<open>None\<close> is an absent field).\<close>

record repo_metadata =
  allow_merge_commit :: "bool option"
  allow_squash_merge :: "bool option"
  allow_rebase_merge :: "bool option"

text \<open>
  A review and a comment are read only through \<^verbatim>\<open>user?.id\<close>: each is kept as that id,
  \<open>None\<close> when \<^verbatim>\<open>user\<close> is \<^verbatim>\<open>null\<close>.
\<close>

type_synonym user = "int option"

record pr_data =
  merged :: bool
  user_id :: int

text \<open>
  \<^verbatim>\<open>repos.getContent\<close> answers with an array for a directory and with an object otherwise;
  \<^verbatim>\<open>content\<close> and \<^verbatim>\<open>encoding\<close> may be missing from the object.
\<close>

datatype content_data =
    ContentArray
  | ContentObject string "string option" "string option"

record check_suite =
  status :: string
  latest_check_runs_count :: int
  check_runs_url :: string

record suites_data =
  total_count :: int
  check_suites :: "check_suite list"

text \<open>
  A branch rule: its \<^verbatim>\<open>type\<close>, and of \<^verbatim>\<open>parameters\<close> (when present) the \<^verbatim>\<open>context\<close> of each
  entry of \<^verbatim>\<open>required_status_checks\<close>.
\<close>

record branch_rule =
  rule_type :: string
  parameters :: "string list option"

record check_run =
  name :: string
  conclusion :: "string option"

datatype merge_method = Merge | Squash | Rebase

text \<open>
  The world the handler runs in: the answer of every API operation at the arguments the
  handler passes (\<open>Inl\<close> is a rejected promise), and the three library functions of the
  decoding chain \<^verbatim>\<open>z.base64()\<close>, \<^verbatim>\<open>Buffer.from(_, 'base64').toString('utf8')\<close> and
  \<^verbatim>\<open>yaml.parse\<close>, which are not code of this repository. Every call passes the payload's
  \<^verbatim>\<open>owner\<close> and \<^verbatim>\<open>repo\<close> unchanged; they are left out of the arguments.
\<close>

record world =
  repos_get :: "error + repo_metadata"
  pulls_listReviews :: "int \<Rightarrow> error + user list"
  pulls_get :: "int \<Rightarrow> error + pr_data"
  issues_listComments :: "int \<Rightarrow> error + user list"
  repos_getContent :: "string \<Rightarrow> string \<Rightarrow> error + content_data"
  checks_listSuitesForRef :: "string \<Rightarrow> error + suites_data"
  repos_getBranchRules :: "string \<Rightarrow> error + branch_rule list"
  request_check_runs :: "string \<Rightarrow> error + check_run list"
  pulls_createReview :: "int \<Rightarrow> error + unit"
  pulls_merge :: "int \<Rightarrow> merge_method \<Rightarrow> error + unit"
  z_base64 :: "string \<Rightarrow> bool"
  base64_to_utf8 :: "string \<Rightarrow> string"
  yaml_parse :: "string \<Rightarrow> error + js"

section \<open>What an evaluation does: API calls and log lines, in order\<close>

datatype api_call =
    ReposGet
  | PullsListReviews int
  | PullsGet int
  | IssuesListComments int
  | ReposGetContent string string
  | IssuesCreateComment int string
  | ChecksListSuitesForRef string
  | ReposGetBranchRules string
  | RequestCheckRuns string
  | PullsCreateReview int string
  | PullsMerge int merge_method

text \<open>
  The log lines of the handler, one constructor per \<^verbatim>\<open>context.log\<close> call of the source.
  \<open>FromFork\<close> carries the value of \<^verbatim>\<open>pull_number\<close> at that point of the code.
\<close>

datatype message =
    Received string string
  | NoPullRequest
  | FromFork "int option"
  | AlreadyReviewed int
  | AlreadyMerged int
  | NotFromDependabot int
  | NotAFile
  | StewardDisabled
  | EcosystemDisabled string
  | NotFound
  | Caught error
  | SuitesNotCompleted int
  | ChecksNotPassed int
  | MergedSuccessfully int merge_method

datatype event =
    Call api_call
  | Log message
  | ConsoleError error

type_synonym 'a outcome = "event list \<times> (error + 'a)"

text \<open>
  \<^verbatim>\<open>const v = (await octokit.f(args)).data; ...\<close>: the call is recorded; a rejected promise
  ends the computation with that error, a value is handed to the rest.
\<close>

definition await :: "api_call \<Rightarrow> error + 'a \<Rightarrow> ('a \<Rightarrow> 'b outcome) \<Rightarrow> 'b outcome" where
  "await c r k =
    (case r of
       Inl e \<Rightarrow> ([Call c], Inl e)
     | Inr v \<Rightarrow> (case k v of (t, res) \<Rightarrow> (Call c # t, res)))"

text \<open>
  \<^verbatim>\<open>await Promise.all(xs.map(async x => ...))\<close>: every callback is started, so the calls of
  all of them are made; the result is the first rejection (taken in list order) or the
  list of all values.
\<close>

fun promise_all :: "'a outcome list \<Rightarrow> 'a list outcome" where
  "promise_all [] = ([], Inr [])"
| "promise_all ((t, r) # ps) =
    (case promise_all ps of
       (ts, rs) \<Rightarrow>
         (t @ ts,
          case r of
            Inl e \<Rightarrow> Inl e
          | Inr v \<Rightarrow> (case rs of Inl e \<Rightarrow> Inl e | Inr vs \<Rightarrow> Inr (v # vs))))"

text \<open>\<^verbatim>\<open>xs.pop()\<close>: the last element, \<^verbatim>\<open>undefined\<close> on the empty array.\<close>

definition pop :: "'a list \<Rightarrow> 'a option" where
  "pop xs = (if xs = [] then None else Some (last xs))"

section \<open>Merge-method resolution\<close>

definition flag :: "bool option \<Rightarrow> bool" where
  "flag b = (b = Some True)"

definition resolve_merge_method :: "repo_metadata \<Rightarrow> error + merge_method" where
  "resolve_merge_method repoMetadata =
    (if flag (allow_merge_commit repoMetadata) then Inr Merge
     else if flag (allow_squash_merge repoMetadata) then Inr Squash
     else if flag (allow_rebase_merge repoMetadata) then Inr Rebase
     else Inl (Error ''No allowed merge method found for the repository.''))"

section \<open>The \<^verbatim>\<open>.steward.yml\<close> block\<close>

text \<open>
  \<^verbatim>\<open>RepoContentSchema.parse\<close>: an object whose \<^verbatim>\<open>type\<close> is one of the four literals, whose
  \<^verbatim>\<open>content\<close> is a string and whose \<^verbatim>\<open>encoding\<close> is \<^verbatim>\<open>base64\<close>; a \<^verbatim>\<open>ZodError\<close> otherwise.
\<close>

fun RepoContentSchema_parse :: "content_data \<Rightarrow> error + string \<times> string" where
  "RepoContentSchema_parse ContentArray = Inl ZodError"
| "RepoContentSchema_parse (ContentObject ty None enc) = Inl ZodError"
| "RepoContentSchema_parse (ContentObject ty (Some c) enc) =
    (if ty \<in> set [''file'', ''dir'', ''submodule'', ''symlink''] \<and> enc = Some ''base64''
     then Inr (ty, c) else Inl ZodError)"

text \<open>
  The advisory comment of both places that post one. \<^verbatim>\<open>createComment\<close> is not awaited:
  the call is made and its result never read.
\<close>

definition comment_once :: "bool \<Rightarrow> int \<Rightarrow> event list" where
  "comment_once hasComment pull_number =
    (if \<not> hasComment then [Call (IssuesCreateComment pull_number must_be_a_file)] else [])"

text \<open>
  The body of the \<^verbatim>\<open>try\<close>. \<open>Inr (Some b)\<close> is \<^verbatim>\<open>return b\<close>, \<open>Inr None\<close> is reaching the end
  of the block, \<open>Inl e\<close> is \<open>e\<close> thrown.
\<close>

definition steward_try :: "world \<Rightarrow> pull_request \<Rightarrow> bool \<Rightarrow> bool option outcome" where
  "steward_try w pr hasComment =
    await (ReposGetContent (head_ref pr) stewardYmlFileName)
      (repos_getContent w (head_ref pr) stewardYmlFileName)
      (\<lambda>stewardYmlData.
        case RepoContentSchema_parse stewardYmlData of
          Inl e \<Rightarrow> ([], Inl e)
        | Inr (ty, content) \<Rightarrow>
            if ty \<noteq> ''file''
            then (Log NotAFile # comment_once hasComment (number pr), Inr (Some False))
            else
              let b64 = filter (\<lambda>c. c \<noteq> CHR 0x0A) content in
              if \<not> z_base64 w b64 then ([], Inl ZodError)
              else
                (case yaml_parse w (base64_to_utf8 w b64) of
                  Inl e \<Rightarrow> ([], Inl e)
                | Inr stewardYml \<Rightarrow>
                    (case get_prop stewardYml ''enable'' of
                       Inl e \<Rightarrow> ([], Inl e)
                     | Inr enable \<Rightarrow>
                         if enable \<noteq> JUndefined \<and> \<not> truthy enable
                         then ([Log StewardDisabled], Inr (Some False))
                         else
                           (case find (includes_str (head_ref pr)) ecosystems of
                              None \<Rightarrow> ([], Inl (Error ''Something went wrong''))
                            | Some thisEcosystemString \<Rightarrow>
                                (case get_prop stewardYml thisEcosystemString of
                                   Inl e \<Rightarrow> ([], Inl e)
                                 | Inr thisEcosystem \<Rightarrow>
                                     if \<not> truthy thisEcosystem then ([], Inr None)
                                     else
                                       (case get_prop thisEcosystem ''enable'' of
                                          Inl e \<Rightarrow> ([], Inl e)
                                        | Inr enable' \<Rightarrow>
                                            if enable' \<noteq> JUndefined \<and> \<not> truthy enable'
                                            then ([Log (EcosystemDisabled thisEcosystemString)],
                                                  Inr (Some False))
                                            else ([], Inr None)))))))"

text \<open>The \<^verbatim>\<open>try\<close> with its \<^verbatim>\<open>catch\<close>.\<close>

definition steward_block :: "world \<Rightarrow> pull_request \<Rightarrow> bool \<Rightarrow> bool option outcome" where
  "steward_block w pr hasComment =
    (case steward_try w pr hasComment of
       (t, Inr r) \<Rightarrow> (t, Inr r)
     | (t, Inl error) \<Rightarrow>
         if error_status error = Some 404 then (t @ [Log NotFound], Inr None)
         else if error = ZodError
         then (t @ Log NotAFile # comment_once hasComment (number pr), Inr (Some False))
         else (t @ [Log (Caught error)], Inr (Some False)))"

section \<open>The check-status block\<close>

definition passed :: "check_run \<Rightarrow> bool" where
  "passed cr =
    (conclusion cr = Some ''success'' \<or> conclusion cr = Some ''skipped''
     \<or> conclusion cr = Some ''neutral'')"

definition fetch_passed :: "world \<Rightarrow> check_suite \<Rightarrow> string list outcome" where
  "fetch_passed w vs =
    await (RequestCheckRuns (check_runs_url vs)) (request_check_runs w (check_runs_url vs))
      (\<lambda>checkRuns. ([], Inr (map name (filter passed checkRuns))))"

definition required_checks :: "branch_rule list \<Rightarrow> string list" where
  "required_checks rules =
    concat (map (\<lambda>r. case parameters r of None \<Rightarrow> [] | Some cs \<Rightarrow> cs)
                (filter (\<lambda>r. rule_type r = ''required_status_checks'') rules))"

definition check_status :: "world \<Rightarrow> pull_request \<Rightarrow> bool outcome" where
  "check_status w pr =
    await (ChecksListSuitesForRef (head_ref pr)) (checks_listSuitesForRef w (head_ref pr))
      (\<lambda>headSuitesData.
        if total_count headSuitesData = 0 then ([], Inr True)
        else
          let validSuites =
                filter (\<lambda>cs. latest_check_runs_count cs > 0) (check_suites headSuitesData) in
          if length validSuites = 0 then ([], Inr True)
          else if list_ex (\<lambda>cs. status cs \<noteq> ''completed'') validSuites
          then ([Log (SuitesNotCompleted (number pr))], Inr False)
          else
            await (ReposGetBranchRules (base_ref pr)) (repos_getBranchRules w (base_ref pr))
              (\<lambda>rules.
                let requiredChecks = required_checks rules in
                if length requiredChecks = 0 then ([], Inr True)
                else
                  (case promise_all (map (fetch_passed w) validSuites) of
                     (t, Inl e) \<Rightarrow> (t, Inl e)
                   | (t, Inr passedLists) \<Rightarrow>
                       let passedChecks = concat passedLists in
                       if \<not> list_all (\<lambda>rc. rc \<in> set passedChecks) requiredChecks
                       then (t @ [Log (ChecksNotPassed (number pr))], Inr False)
                       else (t, Inr True))))"

section \<open>The guard chain \<^verbatim>\<open>processMerge\<close> and the handler\<close>

text \<open>
  The part of \<^verbatim>\<open>processMerge\<close> after \<^verbatim>\<open>pull_number = pr.number\<close>.
\<close>

definition guards_of_pr :: "world \<Rightarrow> pull_request \<Rightarrow> bool outcome" where
  "guards_of_pr w pr =
    (let pull_number = number pr in
     await (PullsListReviews pull_number) (pulls_listReviews w pull_number)
       (\<lambda>prReviewsData.
         if list_ex (\<lambda>r. r = Some stewardUserId) prReviewsData
         then ([Log (AlreadyReviewed pull_number)], Inr False)
         else
           await (PullsGet pull_number) (pulls_get w pull_number)
             (\<lambda>prData.
               if merged prData then ([Log (AlreadyMerged pull_number)], Inr False)
               else if user_id prData \<noteq> dependabotUserId
               then ([Log (NotFromDependabot pull_number)], Inr False)
               else
                 await (IssuesListComments pull_number) (issues_listComments w pull_number)
                   (\<lambda>comments.
                     let hasComment = list_ex (\<lambda>c. c = Some stewardUserId) comments in
                     (case steward_block w pr hasComment of
                        (t, Inl e) \<Rightarrow> (t, Inl e)
                      | (t, Inr (Some b)) \<Rightarrow> (t, Inr b)
                      | (t, Inr None) \<Rightarrow>
                          (case check_status w pr of (t', r) \<Rightarrow> (t @ t', r)))))))"

text \<open>
  \<^verbatim>\<open>processMerge\<close>: the events, the value of the variable \<^verbatim>\<open>pull_number\<close> when it ends, and
  the boolean it returns or the error it throws.
\<close>

definition processMerge :: "world \<Rightarrow> payload \<Rightarrow> event list \<times> int option \<times> (error + bool)" where
  "processMerge w p =
    (case pop (pull_requests p) of
       None \<Rightarrow> ([Log NoPullRequest], None, Inr False)
     | Some pr \<Rightarrow>
         if base_repo_id pr \<noteq> head_repo_id pr then ([Log (FromFork None)], None, Inr False)
         else (case guards_of_pr w pr of (t, r) \<Rightarrow> (t, Some (number pr), r)))"

text \<open>
  The approve-and-merge tail of the handler, entered when \<^verbatim>\<open>processMerge\<close> is true.
  \<^verbatim>\<open>!pull_number\<close> holds for \<^verbatim>\<open>undefined\<close> and for \<open>0\<close>.
\<close>

definition approve_and_merge ::
  "world \<Rightarrow> int option \<Rightarrow> merge_method \<Rightarrow> event list \<times> error option" where
  "approve_and_merge w pull_number merge_method =
    (case pull_number of
       None \<Rightarrow> ([], Some (Error ''Pull request number is undefined after successful processing.''))
     | Some n \<Rightarrow>
         if n = 0
         then ([], Some (Error ''Pull request number is undefined after successful processing.''))
         else
           (case pulls_createReview w n of
              Inl e \<Rightarrow> ([Call (PullsCreateReview n ''APPROVE'')], Some e)
            | Inr u \<Rightarrow>
                (case pulls_merge w n merge_method of
                   Inl e \<Rightarrow>
                     ([Call (PullsCreateReview n ''APPROVE''), Call (PullsMerge n merge_method),
                       ConsoleError e], None)
                 | Inr u' \<Rightarrow>
                     ([Call (PullsCreateReview n ''APPROVE''), Call (PullsMerge n merge_method),
                       Log (MergedSuccessfully n merge_method)], None))))"

text \<open>
  The handler registered for \<^verbatim>\<open>check_suite.completed\<close>: its events, and the error that
  reaches the caller (\<open>None\<close> when the handler returns).
\<close>

definition on_check_suite_completed :: "world \<Rightarrow> payload \<Rightarrow> event list \<times> error option" where
  "on_check_suite_completed w p =
    (case repos_get w of
       Inl e \<Rightarrow> ([Log (Received (owner p) (repo p)), Call ReposGet], Some e)
     | Inr repoMetadata \<Rightarrow>
         (case resolve_merge_method repoMetadata of
            Inl e \<Rightarrow> ([Log (Received (owner p) (repo p)), Call ReposGet], Some e)
          | Inr merge_method \<Rightarrow>
              (case processMerge w p of
                 (t, pull_number, Inl e) \<Rightarrow>
                   (Log (Received (owner p) (repo p)) # Call ReposGet # t, Some e)
               | (t, pull_number, Inr False) \<Rightarrow>
                   (Log (Received (owner p) (repo p)) # Call ReposGet # t, None)
               | (t, pull_number, Inr True) \<Rightarrow>
                   (case approve_and_merge w pull_number merge_method of
                      (t', r) \<Rightarrow>
                        (Log (Received (owner p) (repo p)) # Call ReposGet # t @ t', r)))))"

section \<open>Observations on an evaluation\<close>

text \<open>The two mutations of the merge executor, and the advisory comment.\<close>

fun is_review_or_merge :: "event \<Rightarrow> bool" where
  "is_review_or_merge (Call (PullsCreateReview n ev)) = True"
| "is_review_or_merge (Call (PullsMerge n m)) = True"
| "is_review_or_merge _ = False"

fun is_comment :: "event \<Rightarrow> bool" where
  "is_comment (Call (IssuesCreateComment n body)) = True"
| "is_comment _ = False"

text \<open>The pull request number an event mentions, if any.\<close>

fun pull_number_of :: "event \<Rightarrow> int option" where
  "pull_number_of (Call (PullsListReviews n)) = Some n"
| "pull_number_of (Call (PullsGet n)) = Some n"
| "pull_number_of (Call (IssuesListComments n)) = Some n"
| "pull_number_of (Call (IssuesCreateComment n body)) = Some n"
| "pull_number_of (Call (PullsCreateReview n ev)) = Some n"
| "pull_number_of (Call (PullsMerge n m)) = Some n"
| "pull_number_of (Log (FromFork on)) = on"
| "pull_number_of (Log (AlreadyReviewed n)) = Some n"
| "pull_number_of (Log (AlreadyMerged n)) = Some n"
| "pull_number_of (Log (NotFromDependabot n)) = Some n"
| "pull_number_of (Log (SuitesNotCompleted n)) = Some n"
| "pull_number_of (Log (ChecksNotPassed n)) = Some n"
| "pull_number_of (Log (MergedSuccessfully n m)) = Some n"
| "pull_number_of _ = None"

text \<open>The reads of the check-status block.\<close>

fun is_check_read :: "event \<Rightarrow> bool" where
  "is_check_read (Call (ChecksListSuitesForRef r)) = True"
| "is_check_read (Call (ReposGetBranchRules b)) = True"
| "is_check_read (Call (RequestCheckRuns u)) = True"
| "is_check_read _ = False"

text \<open>
  The first five guards let \<open>pr\<close>, the last attached pull request, through: same
  repository, no review by the steward account, not merged, authored by Dependabot.
\<close>

definition first_five_guards_pass :: "world \<Rightarrow> payload \<Rightarrow> pull_request \<Rightarrow> bool" where
  "first_five_guards_pass w p pr =
    (pop (pull_requests p) = Some pr \<and> base_repo_id pr = head_repo_id pr
     \<and> (case pulls_listReviews w (number pr) of
          Inl e \<Rightarrow> False
        | Inr rs \<Rightarrow> Some stewardUserId \<notin> set rs)
     \<and> (case pulls_get w (number pr) of
          Inl e \<Rightarrow> False
        | Inr d \<Rightarrow> \<not> merged d \<and> user_id d = dependabotUserId))"

text \<open>The \<^verbatim>\<open>hasComment\<close> of the handler, read off the world for pull request \<open>n\<close>.\<close>

definition has_steward_comment :: "world \<Rightarrow> int \<Rightarrow> bool" where
  "has_steward_comment w n =
    (case issues_listComments w n of
       Inl e \<Rightarrow> False
     | Inr cs \<Rightarrow> Some stewardUserId \<in> set cs)"

text \<open>The reads of the guards three to five, and the listing of the comments.\<close>

definition first_reads :: "int \<Rightarrow> event list" where
  "first_reads n =
    [Call (PullsListReviews n), Call (PullsGet n), Call (IssuesListComments n)]"

text \<open>The two events every evaluation starts with.\<close>

definition header :: "payload \<Rightarrow> event list" where
  "header p = [Log (Received (owner p) (repo p)), Call ReposGet]"

text \<open>
  An event that is neither an approval nor a merge, and that names no pull request other
  than \<open>pr\<close>.
\<close>

definition quiet :: "pull_request \<Rightarrow> event \<Rightarrow> bool" where
  "quiet pr e =
    (\<not> is_review_or_merge e \<and>
     (pull_number_of e = None \<or> pull_number_of e = Some (number pr)))"

section \<open>The check-status aggregation as a reference definition\<close>

datatype check_result = Pass | Pending | Fail

definition valid_suites :: "suites_data \<Rightarrow> check_suite list" where
  "valid_suites sd = filter (\<lambda>cs. latest_check_runs_count cs > 0) (check_suites sd)"

definition passed_names :: "suites_data \<Rightarrow> (string \<Rightarrow> check_run list) \<Rightarrow> string list" where
  "passed_names sd runs =
    concat (map (\<lambda>cs. map name (filter passed (runs (check_runs_url cs)))) (valid_suites sd))"

text \<open>
  The reference definition in the order the specification's sentence gives its cases: the
  three "nothing to block on" conditions first, then the pending suites, then the
  required names.
\<close>

definition aggregate_as_stated ::
  "suites_data \<Rightarrow> branch_rule list \<Rightarrow> (string \<Rightarrow> check_run list) \<Rightarrow> check_result" where
  "aggregate_as_stated sd rules runs =
    (if total_count sd = 0 \<or> valid_suites sd = [] \<or> required_checks rules = [] then Pass
     else if list_ex (\<lambda>cs. status cs \<noteq> ''completed'') (valid_suites sd) then Pending
     else if list_all (\<lambda>rc. rc \<in> set (passed_names sd runs)) (required_checks rules) then Pass
     else Fail)"

text \<open>
  The same reference definition with the required-check rules consulted only after the
  pending suites.
\<close>

definition aggregate ::
  "suites_data \<Rightarrow> branch_rule list \<Rightarrow> (string \<Rightarrow> check_run list) \<Rightarrow> check_result" where
  "aggregate sd rules runs =
    (if total_count sd = 0 \<or> valid_suites sd = [] then Pass
     else if list_ex (\<lambda>cs. status cs \<noteq> ''completed'') (valid_suites sd) then Pending
     else if required_checks rules = [] then Pass
     else if list_all (\<lambda>rc. rc \<in> set (passed_names sd runs)) (required_checks rules) then Pass
     else Fail)"

section \<open>The repository after the steward has acted\<close>

text \<open>
  What the hosting service answers once an approval and a merge of pull request \<open>n\<close> by
  the steward account have succeeded: the reviews of \<open>n\<close> hold one more review, by the
  steward account, and \<open>n\<close> is merged.
\<close>

definition after_approve_and_merge :: "world \<Rightarrow> int \<Rightarrow> world" where
  "after_approve_and_merge w n =
    w\<lparr>pulls_listReviews :=
        (pulls_listReviews w)
          (n := (case pulls_listReviews w n of
                   Inl e \<Rightarrow> Inl e
                 | Inr rs \<Rightarrow> Inr (rs @ [Some stewardUserId]))),
      pulls_get :=
        (pulls_get w)
          (n := (case pulls_get w n of
                   Inl e \<Rightarrow> Inl e
                 | Inr d \<Rightarrow> Inr (d\<lparr>merged := True\<rparr>)))\<rparr>"

text \<open>
  What the hosting service answers once a comment of the steward account on pull request
  \<open>n\<close> has been posted: the comments of \<open>n\<close> hold one more comment, by the steward account.
\<close>

definition after_comment :: "world \<Rightarrow> int \<Rightarrow> world" where
  "after_comment w n =
    w\<lparr>issues_listComments :=
        (issues_listComments w)
          (n := (case issues_listComments w n of
                   Inl e \<Rightarrow> Inl e
                 | Inr cs \<Rightarrow> Inr (cs @ [Some stewardUserId])))\<rparr>"

section \<open>The fixtures of the test suite\<close>

text \<open>
  The default mocks of \<^verbatim>\<open>__tests__/app.test.ts\<close>: a repository that allows merge commits, a
  pull request of Dependabot with no review and no comment, a \<^verbatim>\<open>.steward.yml\<close> that reads
  \<^verbatim>\<open>enable: true\<close>, no check suite and no branch rule. The decoding chain is given on the
  documents the tests use.
\<close>

definition enable_string_true :: string where
  "enable_string_true = ''enable: '' @ [CHR 0x22] @ ''true'' @ [CHR 0x22]"

definition test_base64_to_utf8 :: "string \<Rightarrow> string" where
  "test_base64_to_utf8 s =
    (if s = ''ZW5hYmxlOiB0cnVl'' then ''enable: true''
     else if s = ''ZW5hYmxlOiAidHJ1ZSI='' then enable_string_true
     else [])"

definition test_yaml_parse :: "string \<Rightarrow> error + js" where
  "test_yaml_parse s =
    (if s = ''enable: true'' then Inr (JObj [(''enable'', JBool True)])
     else if s = enable_string_true then Inr (JObj [(''enable'', JStr ''true'')])
     else Inr JNull)"

definition test_world :: world where
  "test_world =
    \<lparr>repos_get =
       Inr \<lparr>allow_merge_commit = Some True, allow_squash_merge = None,
            allow_rebase_merge = None\<rparr>,
     pulls_listReviews = (\<lambda>n. Inr []),
     pulls_get = (\<lambda>n. Inr \<lparr>merged = False, user_id = dependabotUserId\<rparr>),
     issues_listComments = (\<lambda>n. Inr []),
     repos_getContent =
       (\<lambda>r path. Inr (ContentObject ''file'' (Some ''ZW5hYmxlOiB0cnVl'') (Some ''base64''))),
     checks_listSuitesForRef = (\<lambda>r. Inr \<lparr>total_count = 0, check_suites = []\<rparr>),
     repos_getBranchRules = (\<lambda>b. Inr []),
     request_check_runs = (\<lambda>url. Inr []),
     pulls_createReview = (\<lambda>n. Inr ()),
     pulls_merge = (\<lambda>n m. Inr ()),
     z_base64 = (\<lambda>s. True),
     base64_to_utf8 = test_base64_to_utf8,
     yaml_parse = test_yaml_parse\<rparr>"

definition test_pr :: pull_request where
  "test_pr =
    \<lparr>number = 1, base_ref = ''main'', base_repo_id = 1,
     head_ref = ''dependabot/npm_and_yarn/test/test-package-1.0.0'', head_repo_id = 1\<rparr>"

definition test_payload :: payload where
  "test_payload = \<lparr>owner = ''test-owner'', repo = ''test-repo'', pull_requests = [test_pr]\<rparr>"

definition test_header :: "event list" where
  "test_header = [Log (Received ''test-owner'' ''test-repo''), Call ReposGet]"

text \<open>The mocks of the tests "already merged" and "some checks are not completed".\<close>

definition merged_world :: world where
  "merged_world = test_world\<lparr>pulls_get := (\<lambda>n. Inr \<lparr>merged = True, user_id = dependabotUserId\<rparr>)\<rparr>"

definition pending_world :: world where
  "pending_world =
    test_world\<lparr>checks_listSuitesForRef :=
      (\<lambda>r. Inr \<lparr>total_count = 1,
                 check_suites = [\<lparr>status = ''in_progress'', latest_check_runs_count = 1,
                                  check_runs_url = ''runs/1''\<rparr>]\<rparr>)\<rparr>"

text \<open>
  Further worlds: the content fetch fails with a server error; a head branch that names
  no ecosystem; the document of the test "should create a comment if .steward.yml is
  invalid", \<^verbatim>\<open>enable: "true"\<close>; no check run at any URL.
\<close>

definition server_error_world :: world where
  "server_error_world = test_world\<lparr>repos_getContent := (\<lambda>r path. Inl (RequestError 500))\<rparr>"

definition unmatched_pr :: pull_request where
  "unmatched_pr = test_pr\<lparr>head_ref := ''dependabot/update''\<rparr>"

definition unmatched_payload :: payload where
  "unmatched_payload = test_payload\<lparr>pull_requests := [unmatched_pr]\<rparr>"

definition string_enable_world :: world where
  "string_enable_world =
    test_world\<lparr>repos_getContent :=
      (\<lambda>r path. Inr (ContentObject ''file'' (Some ''ZW5hYmxlOiAidHJ1ZSI='') (Some ''base64'')))\<rparr>"

definition test_head_ref :: string where
  "test_head_ref = ''dependabot/npm_and_yarn/test/test-package-1.0.0''"

definition no_runs :: "string \<Rightarrow> check_run list" where
  "no_runs url = []"

text \<open>The mocks of the test "should create a comment if .steward.yml is not a file".\<close>

definition dir_world :: world where
  "dir_world =
    test_world\<lparr>repos_getContent := (\<lambda>r path. Inr (ContentObject ''dir'' (Some []) (Some ''base64'')))\<rparr>"

text \<open>
  The mocks of the tests "enable: false", "the ecosystem is disabled" and "required checks
  have not passed", each with the decoding chain on its own document.
\<close>

definition disabled_world :: world where
  "disabled_world =
    test_world\<lparr>repos_getContent :=
        (\<lambda>r path. Inr (ContentObject ''file'' (Some ''ZW5hYmxlOiBmYWxzZQ=='') (Some ''base64''))),
      base64_to_utf8 := (\<lambda>s. if s = ''ZW5hYmxlOiBmYWxzZQ=='' then ''enable: false'' else []),
      yaml_parse :=
        (\<lambda>s. if s = ''enable: false'' then Inr (JObj [(''enable'', JBool False)])
             else Inr JNull)\<rparr>"

definition ecosystem_disabled_doc :: string where
  "ecosystem_disabled_doc = ''npm_and_yarn:'' @ [CHR 0x0A] @ ''  enable: false''"

definition ecosystem_disabled_world :: world where
  "ecosystem_disabled_world =
    test_world\<lparr>repos_getContent :=
        (\<lambda>r path. Inr (ContentObject ''file''
                         (Some ''bnBtX2FuZF95YXJuOgogIGVuYWJsZTogZmFsc2U='') (Some ''base64''))),
      base64_to_utf8 :=
        (\<lambda>s. if s = ''bnBtX2FuZF95YXJuOgogIGVuYWJsZTogZmFsc2U='' then ecosystem_disabled_doc
             else []),
      yaml_parse :=
        (\<lambda>s. if s = ecosystem_disabled_doc
             then Inr (JObj [(''npm_and_yarn'', JObj [(''enable'', JBool False)])])
             else Inr JNull)\<rparr>"

definition failed_world :: world where
  "failed_world =
    test_world\<lparr>checks_listSuitesForRef :=
        (\<lambda>r. Inr \<lparr>total_count = 1,
                   check_suites = [\<lparr>status = ''completed'', latest_check_runs_count = 1,
                                    check_runs_url = ''runs/1''\<rparr>]\<rparr>),
      repos_getBranchRules :=
        (\<lambda>b. Inr [\<lparr>rule_type = ''required_status_checks'', parameters = Some [''test-check'']\<rparr>])\<rparr>"

section \<open>How the blocks compose\<close>


lemma fst_await: "fst (await c r k) = Call c # (case r of Inl e \<Rightarrow> [] | Inr v \<Rightarrow> fst (k v))"
  by (simp add: await_def split: sum.splits prod.splits)

lemma snd_await: "snd (await c r k) = (case r of Inl e \<Rightarrow> Inl e | Inr v \<Rightarrow> snd (k v))"
  by (simp add: await_def split: sum.splits prod.splits)

lemma promise_all_Cons:
  "promise_all (p # ps) =
    (fst p @ fst (promise_all ps),
     case snd p of Inl e \<Rightarrow> Inl e
     | Inr v \<Rightarrow> (case snd (promise_all ps) of Inl e \<Rightarrow> Inl e | Inr vs \<Rightarrow> Inr (v # vs)))"
  by (cases p) (simp add: case_prod_beta)

lemma fst_promise_all: "fst (promise_all ps) = concat (map fst ps)"
  by (induction ps) (simp_all add: promise_all_Cons)

lemma fst_fetch_passed: "fst (fetch_passed w s) = [Call (RequestCheckRuns (check_runs_url s))]"
  by (simp add: fetch_passed_def fst_await split: sum.splits)

lemma snd_promise_all_fetch:
  assumes "\<forall>s \<in> set vs. request_check_runs w (check_runs_url s) = Inr (runs (check_runs_url s))"
  shows "snd (promise_all (map (fetch_passed w) vs)) =
         Inr (map (\<lambda>s. map name (filter passed (runs (check_runs_url s)))) vs)"
  using assms
  by (induction vs) (simp_all add: promise_all_Cons fetch_passed_def snd_await)

lemma steward_try_events:
  "list_all (\<lambda>e. quiet pr e \<and> (is_comment e \<longrightarrow> \<not> hc)) (fst (steward_try w pr hc))"
  by (simp add: steward_try_def fst_await comment_once_def Let_def quiet_def
           split: sum.split prod.split option.split)

lemma steward_block_events:
  "list_all (\<lambda>e. quiet pr e \<and> (is_comment e \<longrightarrow> \<not> hc)) (fst (steward_block w pr hc))"
proof (cases "steward_try w pr hc")
  case (Pair t r)
  then show ?thesis
    using steward_try_events [of pr hc w]
    by (cases r) (simp_all add: steward_block_def comment_once_def quiet_def)
qed

lemma fetch_events:
  "list_all (\<lambda>e. quiet pr e \<and> \<not> is_comment e) (fst (promise_all (map (fetch_passed w) vs)))"
  by (induction vs) (simp_all add: promise_all_Cons fst_fetch_passed quiet_def)

lemma check_status_events:
  "list_all (\<lambda>e. quiet pr e \<and> \<not> is_comment e) (fst (check_status w pr))"
  using fetch_events [of pr w]
  by (simp add: check_status_def fst_await Let_def case_prod_beta split: sum.split)
    (simp add: quiet_def)


lemma guards_of_pr_events:
  "list_all (quiet pr) (fst (guards_of_pr w pr))"
  using steward_block_events [of pr _ w] check_status_events [of pr w]
  apply (simp add: guards_of_pr_def fst_await Let_def case_prod_beta split: sum.split option.split)
  apply (auto simp: quiet_def list_all_iff)
  done

lemma processMerge_events:
  "pop (pull_requests p) = Some pr \<Longrightarrow> list_all (quiet pr) (fst (processMerge w p))"
  using guards_of_pr_events [of pr w]
  by (simp add: processMerge_def case_prod_beta quiet_def)

lemma processMerge_no_pr:
  "pop (pull_requests p) = None \<Longrightarrow> processMerge w p = ([Log NoPullRequest], None, Inr False)"
  by (simp add: processMerge_def)

lemma processMerge_quiet:
  "filter is_review_or_merge (fst (processMerge w p)) = []"
proof (cases "pop (pull_requests p)")
  case None
  then show ?thesis by (simp add: processMerge_no_pr)
next
  case (Some pr)
  then show ?thesis
    using processMerge_events [of p pr w]
    by (simp add: filter_empty_conv list_all_iff quiet_def)
qed

lemma processMerge_true:
  "snd (snd (processMerge w p)) = Inr True \<Longrightarrow>
   pull_requests p \<noteq> [] \<and> fst (snd (processMerge w p)) = Some (number (last (pull_requests p)))"
  by (auto simp: processMerge_def pop_def case_prod_beta split: if_splits)

lemma run_unfold:
  "repos_get w = Inr md \<Longrightarrow> resolve_merge_method md = Inr mm \<Longrightarrow>
   on_check_suite_completed w p =
     (case snd (snd (processMerge w p)) of
        Inl e \<Rightarrow> (header p @ fst (processMerge w p), Some e)
      | Inr b \<Rightarrow>
          if b then (header p @ fst (processMerge w p) @
                      fst (approve_and_merge w (fst (snd (processMerge w p))) mm),
                    snd (approve_and_merge w (fst (snd (processMerge w p))) mm))
          else (header p @ fst (processMerge w p), None))"
  by (cases "processMerge w p")
     (auto simp: on_check_suite_completed_def header_def case_prod_beta split: sum.split bool.split)

lemma run_no_method:
  "repos_get w = Inr md \<Longrightarrow> resolve_merge_method md = Inl e \<Longrightarrow>
   on_check_suite_completed w p = (header p, Some e)"
  by (simp add: on_check_suite_completed_def header_def)

lemma run_no_metadata:
  "repos_get w = Inl e \<Longrightarrow> on_check_suite_completed w p = (header p, Some e)"
  by (simp add: on_check_suite_completed_def header_def)

lemma approve_and_merge_method:
  "Call (PullsMerge n m) \<in> set (fst (approve_and_merge w pn mm)) \<Longrightarrow> m = mm"
  by (auto simp: approve_and_merge_def split: option.splits if_splits sum.splits)


lemma run_veto:
  "repos_get w = Inr md \<Longrightarrow> resolve_merge_method md = Inr mm \<Longrightarrow>
   processMerge w p = (t, pn, Inr False) \<Longrightarrow>
   on_check_suite_completed w p = (header p @ t, None)"
  by (simp add: on_check_suite_completed_def header_def)

lemma guard_no_pr:
  "pull_requests p = [] \<Longrightarrow> processMerge w p = ([Log NoPullRequest], None, Inr False)"
  by (simp add: processMerge_def pop_def)

lemma guard_fork:
  "pop (pull_requests p) = Some pr \<Longrightarrow> base_repo_id pr \<noteq> head_repo_id pr \<Longrightarrow>
   processMerge w p = ([Log (FromFork None)], None, Inr False)"
  by (simp add: processMerge_def)

lemma processMerge_same_repo:
  "pop (pull_requests p) = Some pr \<Longrightarrow> base_repo_id pr = head_repo_id pr \<Longrightarrow>
   processMerge w p = (fst (guards_of_pr w pr), Some (number pr), snd (guards_of_pr w pr))"
  by (simp add: processMerge_def case_prod_beta)

lemma guard_reviewed:
  "pulls_listReviews w (number pr) = Inr rs \<Longrightarrow> Some stewardUserId \<in> set rs \<Longrightarrow>
   guards_of_pr w pr =
     ([Call (PullsListReviews (number pr)), Log (AlreadyReviewed (number pr))], Inr False)"
  by (auto simp: guards_of_pr_def await_def list_ex_iff Let_def)

lemma guard_merged:
  "pulls_listReviews w (number pr) = Inr rs \<Longrightarrow> Some stewardUserId \<notin> set rs \<Longrightarrow>
   pulls_get w (number pr) = Inr d \<Longrightarrow> merged d \<Longrightarrow>
   guards_of_pr w pr =
     ([Call (PullsListReviews (number pr)), Call (PullsGet (number pr)),
       Log (AlreadyMerged (number pr))], Inr False)"
  by (auto simp: guards_of_pr_def await_def list_ex_iff Let_def)

lemma guard_author:
  "pulls_listReviews w (number pr) = Inr rs \<Longrightarrow> Some stewardUserId \<notin> set rs \<Longrightarrow>
   pulls_get w (number pr) = Inr d \<Longrightarrow> \<not> merged d \<Longrightarrow> user_id d \<noteq> dependabotUserId \<Longrightarrow>
   guards_of_pr w pr =
     ([Call (PullsListReviews (number pr)), Call (PullsGet (number pr)),
       Log (NotFromDependabot (number pr))], Inr False)"
  by (auto simp: guards_of_pr_def await_def list_ex_iff Let_def)

lemma guards_reach_config:
  "pulls_listReviews w (number pr) = Inr rs \<Longrightarrow> Some stewardUserId \<notin> set rs \<Longrightarrow>
   pulls_get w (number pr) = Inr d \<Longrightarrow> \<not> merged d \<Longrightarrow> user_id d = dependabotUserId \<Longrightarrow>
   issues_listComments w (number pr) = Inr cs \<Longrightarrow>
   guards_of_pr w pr =
     (case snd (steward_block w pr (Some stewardUserId \<in> set cs)) of
        Inl e \<Rightarrow>
          ([Call (PullsListReviews (number pr)), Call (PullsGet (number pr)),
            Call (IssuesListComments (number pr))]
           @ fst (steward_block w pr (Some stewardUserId \<in> set cs)), Inl e)
      | Inr (Some b) \<Rightarrow>
          ([Call (PullsListReviews (number pr)), Call (PullsGet (number pr)),
            Call (IssuesListComments (number pr))]
           @ fst (steward_block w pr (Some stewardUserId \<in> set cs)), Inr b)
      | Inr None \<Rightarrow>
          ([Call (PullsListReviews (number pr)), Call (PullsGet (number pr)),
            Call (IssuesListComments (number pr))]
           @ fst (steward_block w pr (Some stewardUserId \<in> set cs))
           @ fst (check_status w pr), snd (check_status w pr)))"
  by (cases "steward_block w pr (Some stewardUserId \<in> set cs)")
     (auto simp: guards_of_pr_def await_def list_ex_iff case_prod_beta Let_def
           split: sum.split option.split)

lemma steward_try_never_true: "snd (steward_try w pr hc) \<noteq> Inr (Some True)"
  by (simp add: steward_try_def snd_await Let_def split: sum.split prod.split option.split)

lemma steward_block_never_true: "snd (steward_block w pr hc) \<noteq> Inr (Some True)"
  using steward_try_never_true [of w pr hc]
  by (cases "steward_try w pr hc") (auto simp: steward_block_def split: sum.splits)

lemma steward_try_no_check_read: "filter is_check_read (fst (steward_try w pr hc)) = []"
  by (simp add: steward_try_def fst_await comment_once_def Let_def
           split: sum.split prod.split option.split)

lemma steward_block_no_check_read: "filter is_check_read (fst (steward_block w pr hc)) = []"
  using steward_try_no_check_read [of w pr hc]
  by (cases "steward_try w pr hc") (auto simp: steward_block_def comment_once_def split: sum.splits)

lemma test_world_method:
  "repos_get test_world = Inr \<lparr>allow_merge_commit = Some True, allow_squash_merge = None,
            allow_rebase_merge = None\<rparr>"
  "resolve_merge_method \<lparr>allow_merge_commit = Some True, allow_squash_merge = None,
            allow_rebase_merge = None\<rparr> = Inr Merge"
  by (simp_all add: test_world_def resolve_merge_method_def flag_def)

lemma check_status_unfold:
  assumes sd: "checks_listSuitesForRef w (head_ref pr) = Inr sd"
    and rules: "repos_getBranchRules w (base_ref pr) = Inr rules"
    and runs: "\<forall>cs \<in> set (valid_suites sd).
                 request_check_runs w (check_runs_url cs) = Inr (runs (check_runs_url cs))"
  shows "check_status w pr =
    (if total_count sd = 0 \<or> valid_suites sd = []
     then ([Call (ChecksListSuitesForRef (head_ref pr))], Inr True)
     else if list_ex (\<lambda>cs. status cs \<noteq> ''completed'') (valid_suites sd)
     then ([Call (ChecksListSuitesForRef (head_ref pr)), Log (SuitesNotCompleted (number pr))],
           Inr False)
     else if required_checks rules = []
     then ([Call (ChecksListSuitesForRef (head_ref pr)), Call (ReposGetBranchRules (base_ref pr))],
           Inr True)
     else if list_all (\<lambda>rc. rc \<in> set (passed_names sd runs)) (required_checks rules)
     then (Call (ChecksListSuitesForRef (head_ref pr)) # Call (ReposGetBranchRules (base_ref pr))
             # map (\<lambda>s. Call (RequestCheckRuns (check_runs_url s))) (valid_suites sd),
           Inr True)
     else (Call (ChecksListSuitesForRef (head_ref pr)) # Call (ReposGetBranchRules (base_ref pr))
             # map (\<lambda>s. Call (RequestCheckRuns (check_runs_url s))) (valid_suites sd)
             @ [Log (ChecksNotPassed (number pr))],
           Inr False))"
proof -
  have f: "fst (promise_all (map (fetch_passed w) (valid_suites sd))) =
      map (\<lambda>s. Call (RequestCheckRuns (check_runs_url s))) (valid_suites sd)"
    by (simp add: fst_promise_all fst_fetch_passed comp_def)
  have s: "snd (promise_all (map (fetch_passed w) (valid_suites sd))) =
      Inr (map (\<lambda>s. map name (filter passed (runs (check_runs_url s)))) (valid_suites sd))"
    using runs by (rule snd_promise_all_fetch)
  obtain t r where p: "promise_all (map (fetch_passed w) (valid_suites sd)) = (t, r)"
    by (cases "promise_all (map (fetch_passed w) (valid_suites sd))")
  have t: "t = map (\<lambda>s. Call (RequestCheckRuns (check_runs_url s))) (valid_suites sd)"
    and r: "r = Inr (map (\<lambda>s. map name (filter passed (runs (check_runs_url s)))) (valid_suites sd))"
    using f s p by simp_all
  have p': "promise_all (map (fetch_passed w)
         (filter (\<lambda>cs. 0 < latest_check_runs_count cs) (check_suites sd))) = (t, r)"
    using p by (simp add: valid_suites_def)
  show ?thesis
    unfolding check_status_def await_def sd rules
    by (simp add: Let_def p' passed_names_def t r)
       (simp add: valid_suites_def)
qed

lemma take_length_eq: "(take (length e) xs = e) = (\<exists>b. xs = e @ b)"
  by (metis append_eq_conv_conj append_take_drop_id)

lemma includes_str_iff: "includes_str s e = (\<exists>a b. s = a @ e @ b)"
proof (induction s)
  case Nil
  show ?case by simp
next
  case (Cons c s)
  have "(\<exists>a b. c # s = a @ e @ b) = ((\<exists>b. c # s = e @ b) \<or> (\<exists>a b. s = a @ e @ b))"
    by (auto simp: Cons_eq_append_conv)
  then show ?case using Cons by (simp only: includes_str.simps take_length_eq)
qed

lemma find_None_ecosystems:
  "(find (includes_str s) ecosystems = None) = (\<forall>e \<in> set ecosystems. \<not> (\<exists>a b. s = a @ e @ b))"
  by (simp only: find_None_iff includes_str_iff) blast

lemma steward_try_fetch_error:
  "repos_getContent w (head_ref pr) stewardYmlFileName = Inl e \<Longrightarrow>
   steward_try w pr hc = ([Call (ReposGetContent (head_ref pr) stewardYmlFileName)], Inl e)"
  by (simp add: steward_try_def await_def)

lemma steward_try_unmatched:
  "repos_getContent w (head_ref pr) stewardYmlFileName =
     Inr (ContentObject ''file'' (Some c) (Some ''base64'')) \<Longrightarrow>
   z_base64 w (filter (\<lambda>x. x \<noteq> CHR 0x0A) c) \<Longrightarrow>
   yaml_parse w (base64_to_utf8 w (filter (\<lambda>x. x \<noteq> CHR 0x0A) c)) = Inr y \<Longrightarrow>
   get_prop y ''enable'' = Inr en \<Longrightarrow> en = JUndefined \<or> truthy en \<Longrightarrow>
   find (includes_str (head_ref pr)) ecosystems = None \<Longrightarrow>
   steward_try w pr hc =
     ([Call (ReposGetContent (head_ref pr) stewardYmlFileName)],
      Inl (Error ''Something went wrong''))"
  by (auto simp: steward_try_def await_def Let_def)

lemma steward_block_caught:
  "steward_try w pr hc = (t, Inl e) \<Longrightarrow> error_status e \<noteq> Some 404 \<Longrightarrow> e \<noteq> ZodError \<Longrightarrow>
   steward_block w pr hc = (t @ [Log (Caught e)], Inr (Some False))"
  by (simp add: steward_block_def)

lemma processMerge_config_veto:
  assumes g: "first_five_guards_pass w p pr"
    and cs: "issues_listComments w (number pr) = Inr cs"
    and s: "steward_block w pr (Some stewardUserId \<in> set cs) = (t, Inr (Some False))"
  shows "processMerge w p =
    ([Call (PullsListReviews (number pr)), Call (PullsGet (number pr)),
      Call (IssuesListComments (number pr))] @ t, Some (number pr), Inr False)"
proof -
  obtain rs d where rs: "pulls_listReviews w (number pr) = Inr rs" "Some stewardUserId \<notin> set rs"
    and d: "pulls_get w (number pr) = Inr d" "\<not> merged d" "user_id d = dependabotUserId"
    using g by (auto simp: first_five_guards_pass_def split: sum.splits)
  have pr: "pop (pull_requests p) = Some pr" "base_repo_id pr = head_repo_id pr"
    using g by (simp_all add: first_five_guards_pass_def)
  show ?thesis
    using processMerge_same_repo [OF pr, of w] guards_reach_config [OF rs d cs] s by simp
qed

lemma processMerge_allow:
  assumes "snd (snd (processMerge w p)) = Inr True"
  shows "\<exists>pr rs. pop (pull_requests p) = Some pr \<and> base_repo_id pr = head_repo_id pr
           \<and> pulls_listReviews w (number pr) = Inr rs
           \<and> number pr = number (last (pull_requests p))"
proof -
  obtain pr where pr: "pop (pull_requests p) = Some pr" "base_repo_id pr = head_repo_id pr"
      "number pr = number (last (pull_requests p))"
    using assms by (auto simp: processMerge_def pop_def split: if_splits)
  have "snd (guards_of_pr w pr) = Inr True"
    using assms processMerge_same_repo [OF pr(1,2), of w] by simp
  then obtain rs where "pulls_listReviews w (number pr) = Inr rs"
    by (cases "pulls_listReviews w (number pr)")
       (auto simp: guards_of_pr_def snd_await Let_def)
  then show ?thesis using pr by blast
qed

lemma steward_try_comments:
  "length (filter is_comment (fst (steward_try w pr hc))) \<le> 1"
  by (simp add: steward_try_def fst_await comment_once_def Let_def
           split: sum.split prod.split option.split)

lemma steward_try_thrown:
  "(case steward_try w pr hc of
      (t, Inl e) \<Rightarrow> t = [Call (ReposGetContent (head_ref pr) stewardYmlFileName)]
    | (t, Inr r) \<Rightarrow> True)"
  by (simp add: steward_try_def await_def Let_def split: sum.split prod.split option.split)

lemma steward_block_comments:
  "length (filter is_comment (fst (steward_block w pr hc))) \<le> 1"
proof (cases "steward_try w pr hc")
  case (Pair t r)
  show ?thesis
  proof (cases r)
    case (Inl e)
    then have "t = [Call (ReposGetContent (head_ref pr) stewardYmlFileName)]"
      using Pair steward_try_thrown [where w = w and pr = pr and hc = hc] by simp
    then show ?thesis using Pair Inl by (simp add: steward_block_def comment_once_def)
  next
    case (Inr v)
    then show ?thesis using Pair steward_try_comments [of w pr hc] by (simp add: steward_block_def)
  qed
qed

lemma check_status_comments: "filter is_comment (fst (check_status w pr)) = []"
  using check_status_events [of pr w] by (auto simp: filter_empty_conv list_all_iff)

lemma guards_of_pr_comments:
  "length (filter is_comment (fst (guards_of_pr w pr))) \<le> 1"
  using steward_block_comments [of w pr] check_status_comments [of w pr]
  by (simp add: guards_of_pr_def fst_await Let_def case_prod_beta split: sum.split option.split)

lemma guards_of_pr_suppressed:
  "list_all (\<lambda>e. is_comment e \<longrightarrow>
       (case issues_listComments w (number pr) of
          Inl e \<Rightarrow> False
        | Inr cs \<Rightarrow> Some stewardUserId \<notin> set cs)) (fst (guards_of_pr w pr))"
  using steward_block_events [of pr _ w] check_status_events [of pr w]
  apply (simp add: guards_of_pr_def fst_await Let_def case_prod_beta
      split: sum.split option.split)
  apply (auto simp: list_all_iff list_ex_iff)
  done

lemma processMerge_comments:
  "length (filter is_comment (fst (processMerge w p))) \<le> 1"
  using guards_of_pr_comments [of w]
  by (simp add: processMerge_def case_prod_beta split: option.split)

lemma processMerge_suppressed:
  assumes "e \<in> set (fst (processMerge w p))" and "is_comment e"
  shows "\<exists>pr cs. pop (pull_requests p) = Some pr \<and> pull_number_of e = Some (number pr)
           \<and> issues_listComments w (number pr) = Inr cs \<and> Some stewardUserId \<notin> set cs"
proof (cases "pop (pull_requests p)")
  case None
  then show ?thesis using assms by (simp add: processMerge_no_pr)
next
  case (Some pr)
  have e: "e \<in> set (fst (guards_of_pr w pr))"
    using assms Some by (auto simp: processMerge_def case_prod_beta split: if_splits)
  have "\<exists>cs. issues_listComments w (number pr) = Inr cs \<and> Some stewardUserId \<notin> set cs"
    using e assms(2) guards_of_pr_suppressed [of w pr]
    by (auto simp: list_all_iff split: sum.splits)
  moreover have "pull_number_of e = Some (number pr)"
    using e assms(2) guards_of_pr_events [of pr w]
    by (cases e rule: is_comment.cases) (auto simp: list_all_iff quiet_def)
  ultimately show ?thesis using Some by auto
qed

lemma run_comments:
  "filter is_comment (fst (on_check_suite_completed w p)) \<noteq> [] \<Longrightarrow>
   filter is_comment (fst (on_check_suite_completed w p)) = filter is_comment (fst (processMerge w p))"
  by (cases "processMerge w p")
     (auto simp: on_check_suite_completed_def approve_and_merge_def case_prod_beta
           split: sum.splits bool.splits option.splits if_splits)

lemma run_comment_event:
  assumes "e \<in> set (fst (on_check_suite_completed w p))" and "is_comment e"
  shows "e \<in> set (fst (processMerge w p))"
proof -
  have m: "e \<in> set (filter is_comment (fst (on_check_suite_completed w p)))"
    using assms by simp
  then have "filter is_comment (fst (on_check_suite_completed w p)) \<noteq> []"
    by (metis empty_iff empty_set)
  then have eq: "filter is_comment (fst (on_check_suite_completed w p)) =
      filter is_comment (fst (processMerge w p))"
    by (rule run_comments)
  show ?thesis using m unfolding eq by simp
qed

lemma processMerge_comment_of:
  assumes "Call (IssuesCreateComment n body) \<in> set (fst (processMerge w p))"
  shows "\<exists>pr cs. pop (pull_requests p) = Some pr \<and> n = number pr
           \<and> issues_listComments w n = Inr cs \<and> Some stewardUserId \<notin> set cs"
proof -
  obtain pr cs where a: "pop (pull_requests p) = Some pr"
      "pull_number_of (Call (IssuesCreateComment n body)) = Some (number pr)"
      "issues_listComments w (number pr) = Inr cs" "Some stewardUserId \<notin> set cs"
    using processMerge_suppressed [OF assms] by auto
  have "n = number pr" using a(2) by simp
  then show ?thesis using a by blast
qed

lemma RepoContentSchema_parse_error: "RepoContentSchema_parse data = Inl e \<Longrightarrow> e = ZodError"
  by (cases data rule: RepoContentSchema_parse.cases) (auto split: if_splits)

lemma steward_block_invalid:
  assumes "repos_getContent w (head_ref pr) stewardYmlFileName = Inr data"
    and "RepoContentSchema_parse data = Inl e
         \<or> (RepoContentSchema_parse data = Inr (ty, c)
             \<and> (ty \<noteq> ''file'' \<or> \<not> z_base64 w (filter (\<lambda>x. x \<noteq> CHR 0x0A) c)))"
  shows "steward_block w pr hc =
    (Call (ReposGetContent (head_ref pr) stewardYmlFileName) # Log NotAFile
       # comment_once hc (number pr), Inr (Some False))"
  using assms RepoContentSchema_parse_error [of data e]
  by (auto simp: steward_block_def steward_try_def await_def Let_def)

lemma steward_block_disabled:
  assumes "repos_getContent w (head_ref pr) stewardYmlFileName = Inr data"
    and "RepoContentSchema_parse data = Inr (''file'', c)"
    and "z_base64 w (filter (\<lambda>x. x \<noteq> CHR 0x0A) c)"
    and "yaml_parse w (base64_to_utf8 w (filter (\<lambda>x. x \<noteq> CHR 0x0A) c)) = Inr y"
    and "get_prop y ''enable'' = Inr en" and "en \<noteq> JUndefined" and "\<not> truthy en"
  shows "steward_block w pr hc =
    ([Call (ReposGetContent (head_ref pr) stewardYmlFileName), Log StewardDisabled],
     Inr (Some False))"
  using assms by (simp add: steward_block_def steward_try_def await_def Let_def)

lemma steward_block_ecosystem_disabled:
  assumes "repos_getContent w (head_ref pr) stewardYmlFileName = Inr data"
    and "RepoContentSchema_parse data = Inr (''file'', c)"
    and "z_base64 w (filter (\<lambda>x. x \<noteq> CHR 0x0A) c)"
    and "yaml_parse w (base64_to_utf8 w (filter (\<lambda>x. x \<noteq> CHR 0x0A) c)) = Inr y"
    and "get_prop y ''enable'' = Inr en" and "en = JUndefined \<or> truthy en"
    and "find (includes_str (head_ref pr)) ecosystems = Some eco"
    and "get_prop y eco = Inr te" and "truthy te"
    and "get_prop te ''enable'' = Inr en'" and "en' \<noteq> JUndefined" and "\<not> truthy en'"
  shows "steward_block w pr hc =
    ([Call (ReposGetContent (head_ref pr) stewardYmlFileName), Log (EcosystemDisabled eco)],
     Inr (Some False))"
  using assms by (auto simp: steward_block_def steward_try_def await_def Let_def)

lemma steward_block_enabled:
  assumes "repos_getContent w (head_ref pr) stewardYmlFileName = Inr data"
    and "RepoContentSchema_parse data = Inr (''file'', c)"
    and "z_base64 w (filter (\<lambda>x. x \<noteq> CHR 0x0A) c)"
    and "yaml_parse w (base64_to_utf8 w (filter (\<lambda>x. x \<noteq> CHR 0x0A) c)) = Inr y"
    and "get_prop y ''enable'' = Inr en" and "en = JUndefined \<or> truthy en"
    and "find (includes_str (head_ref pr)) ecosystems = Some eco"
    and "get_prop y eco = Inr te"
    and "\<not> truthy te \<or> (get_prop te ''enable'' = Inr en' \<and> (en' = JUndefined \<or> truthy en'))"
  shows "steward_block w pr hc =
    ([Call (ReposGetContent (head_ref pr) stewardYmlFileName)], Inr None)"
  using assms by (auto simp: steward_block_def steward_try_def await_def Let_def)

lemma steward_block_absent:
  assumes "repos_getContent w (head_ref pr) stewardYmlFileName = Inl e"
    and "error_status e = Some 404"
  shows "steward_block w pr hc =
    ([Call (ReposGetContent (head_ref pr) stewardYmlFileName), Log NotFound], Inr None)"
  using assms by (simp add: steward_block_def steward_try_def await_def)

lemma check_status_by_aggregate:
  assumes sd: "checks_listSuitesForRef w (head_ref pr) = Inr sd"
    and rules: "repos_getBranchRules w (base_ref pr) = Inr rules"
    and runs: "\<forall>cs \<in> set (valid_suites sd).
                 request_check_runs w (check_runs_url cs) = Inr (runs (check_runs_url cs))"
  shows "aggregate sd rules runs = Pending \<Longrightarrow>
           check_status w pr =
             ([Call (ChecksListSuitesForRef (head_ref pr)), Log (SuitesNotCompleted (number pr))],
              Inr False)"
    and "aggregate sd rules runs = Fail \<Longrightarrow>
           check_status w pr =
             (Call (ChecksListSuitesForRef (head_ref pr)) # Call (ReposGetBranchRules (base_ref pr))
                # map (\<lambda>s. Call (RequestCheckRuns (check_runs_url s))) (valid_suites sd)
                @ [Log (ChecksNotPassed (number pr))], Inr False)"
    and "aggregate sd rules runs = Pass \<Longrightarrow> snd (check_status w pr) = Inr True"
  unfolding check_status_unfold [OF sd rules runs] aggregate_def
  by (auto split: if_splits)

lemma processMerge_past_config:
  assumes pr: "pop (pull_requests p) = Some pr" "base_repo_id pr = head_repo_id pr"
    and rs: "pulls_listReviews w (number pr) = Inr rs" "Some stewardUserId \<notin> set rs"
    and d: "pulls_get w (number pr) = Inr d" "\<not> merged d" "user_id d = dependabotUserId"
    and cs: "issues_listComments w (number pr) = Inr cs"
    and sb: "steward_block w pr (Some stewardUserId \<in> set cs) = (t, Inr None)"
  shows "processMerge w p =
    (first_reads (number pr) @ t @ fst (check_status w pr), Some (number pr),
     snd (check_status w pr))"
  using processMerge_same_repo [OF pr, of w] guards_reach_config [OF rs d cs] sb
  by (simp add: first_reads_def)

lemma processMerge_at_config:
  assumes pr: "pop (pull_requests p) = Some pr" "base_repo_id pr = head_repo_id pr"
    and rs: "pulls_listReviews w (number pr) = Inr rs" "Some stewardUserId \<notin> set rs"
    and d: "pulls_get w (number pr) = Inr d" "\<not> merged d" "user_id d = dependabotUserId"
    and cs: "issues_listComments w (number pr) = Inr cs"
    and sb: "steward_block w pr (Some stewardUserId \<in> set cs) = (t, Inr (Some False))"
  shows "processMerge w p = (first_reads (number pr) @ t, Some (number pr), Inr False)"
  using processMerge_same_repo [OF pr, of w] guards_reach_config [OF rs d cs] sb
  by (simp add: first_reads_def)

lemma run_of_veto:
  "snd (snd (processMerge w p)) = Inr False \<Longrightarrow>
   on_check_suite_completed w p =
     (case repos_get w of
        Inl e \<Rightarrow> (header p, Some e)
      | Inr md \<Rightarrow>
          (case resolve_merge_method md of
             Inl e \<Rightarrow> (header p, Some e)
           | Inr mm \<Rightarrow> (header p @ fst (processMerge w p), None)))"
  by (cases "processMerge w p")
     (auto simp: on_check_suite_completed_def header_def split: sum.split)

lemma run_without_allow:
  "snd (snd (processMerge w p)) \<noteq> Inr True \<Longrightarrow>
   filter is_review_or_merge (fst (on_check_suite_completed w p)) = []"
proof (cases "repos_get w")
  case (Inl e)
  then show ?thesis by (simp add: run_no_metadata header_def)
next
  case (Inr md)
  assume n: "snd (snd (processMerge w p)) \<noteq> Inr True"
  show ?thesis
  proof (cases "resolve_merge_method md")
    case (Inl e)
    then show ?thesis using Inr by (simp add: run_no_method header_def)
  next
    case mm: (Inr mm)
    show ?thesis
      using n run_unfold [OF Inr mm, of p] processMerge_quiet [of w p]
      by (auto simp: header_def split: sum.splits)
  qed
qed

lemma test_pr_passes:
  "pop (pull_requests test_payload) = Some test_pr"
  "base_repo_id test_pr = head_repo_id test_pr"
  "number test_pr = 1"
  "head_ref test_pr = test_head_ref"
  "base_ref test_pr = ''main''"
  by (simp_all add: test_payload_def pop_def test_pr_def test_head_ref_def)

section \<open>Merge-method selection\<close>

text \<open>
  Claim C6. The merge method is the first of merge, squash, rebase whose capability flag
  of the repository is true. When none is true, the evaluation ends with the error
  "No allowed merge method found for the repository." after the metadata fetch alone,
  so before any approving review or merge. Every merge call of an evaluation carries the
  selected method, and an evaluation whose decision is allow and whose approval succeeds
  makes the merge call with it.
\<close>

theorem merge_method_first_true:
  assumes md: "repos_get w = Inr md"
  shows "resolve_merge_method md =
           (if allow_merge_commit md = Some True then Inr Merge
            else if allow_squash_merge md = Some True then Inr Squash
            else if allow_rebase_merge md = Some True then Inr Rebase
            else Inl (Error ''No allowed merge method found for the repository.''))
       \<and> (\<forall>e. resolve_merge_method md = Inl e \<longrightarrow>
              on_check_suite_completed w p = (header p, Some e))
       \<and> (\<forall>n m. Call (PullsMerge n m) \<in> set (fst (on_check_suite_completed w p)) \<longrightarrow>
              resolve_merge_method md = Inr m)
       \<and> (\<forall>m. resolve_merge_method md = Inr m
              \<and> snd (snd (processMerge w p)) = Inr True
              \<and> number (last (pull_requests p)) \<noteq> 0
              \<and> pulls_createReview w (number (last (pull_requests p))) = Inr () \<longrightarrow>
              Call (PullsMerge (number (last (pull_requests p))) m)
                \<in> set (fst (on_check_suite_completed w p)))"
proof (intro conjI allI impI)
  show "resolve_merge_method md =
           (if allow_merge_commit md = Some True then Inr Merge
            else if allow_squash_merge md = Some True then Inr Squash
            else if allow_rebase_merge md = Some True then Inr Rebase
            else Inl (Error ''No allowed merge method found for the repository.''))"
    by (simp add: resolve_merge_method_def flag_def)
next
  fix e assume "resolve_merge_method md = Inl e"
  then show "on_check_suite_completed w p = (header p, Some e)"
    using md by (rule run_no_method [rotated])
next
  fix n m
  assume c: "Call (PullsMerge n m) \<in> set (fst (on_check_suite_completed w p))"
  show "resolve_merge_method md = Inr m"
  proof (cases "resolve_merge_method md")
    case (Inl e)
    then show ?thesis using c run_no_method [OF md Inl, of p] by (simp add: header_def)
  next
    case (Inr mm)
    have q: "Call (PullsMerge n m) \<notin> set (fst (processMerge w p))"
      using processMerge_quiet [of w p] by (auto simp: filter_empty_conv)
    have "Call (PullsMerge n m) \<in> set (fst (approve_and_merge w (fst (snd (processMerge w p))) mm))"
      using c q run_unfold [OF md Inr, of p]
      by (auto simp: header_def split: sum.splits if_splits)
    then have "m = mm" by (rule approve_and_merge_method)
    then show ?thesis using Inr by simp
  qed
next
  fix m
  assume a: "resolve_merge_method md = Inr m
              \<and> snd (snd (processMerge w p)) = Inr True
              \<and> number (last (pull_requests p)) \<noteq> 0
              \<and> pulls_createReview w (number (last (pull_requests p))) = Inr ()"
  then have pn: "fst (snd (processMerge w p)) = Some (number (last (pull_requests p)))"
    using processMerge_true [of w p] by simp
  show "Call (PullsMerge (number (last (pull_requests p))) m)
                \<in> set (fst (on_check_suite_completed w p))"
    using a pn run_unfold [OF md, of m p]
    by (auto simp: approve_and_merge_def split: sum.splits)
qed

theorem merge_method_first_true_witness:
  "repos_get (test_world\<lparr>repos_get := Inr \<lparr>allow_merge_commit = Some False,
       allow_squash_merge = None, allow_rebase_merge = Some True\<rparr>\<rparr>)
     = Inr \<lparr>allow_merge_commit = Some False, allow_squash_merge = None,
            allow_rebase_merge = Some True\<rparr>
   \<and> resolve_merge_method \<lparr>allow_merge_commit = Some False, allow_squash_merge = None,
            allow_rebase_merge = Some True\<rparr> = Inr Rebase
   \<and> Call (PullsMerge 1 Rebase) \<in> set (fst (on_check_suite_completed
        (test_world\<lparr>repos_get := Inr \<lparr>allow_merge_commit = Some False,
           allow_squash_merge = None, allow_rebase_merge = Some True\<rparr>\<rparr>) test_payload))"
proof -
  let ?md = "\<lparr>allow_merge_commit = Some False, allow_squash_merge = None,
            allow_rebase_merge = Some True\<rparr>"
  let ?w = "test_world\<lparr>repos_get := Inr ?md\<rparr>"
  have h: "repos_get ?w = Inr ?md" by simp
  have r: "resolve_merge_method ?md = Inr Rebase"
    using merge_method_first_true [OF h, of test_payload] by simp
  have t: "snd (snd (processMerge ?w test_payload)) = Inr True" by code_simp
  have n: "number (last (pull_requests test_payload)) = 1"
    by (simp add: test_payload_def test_pr_def)
  have c: "pulls_createReview ?w 1 = Inr ()" by (simp add: test_world_def)
  have "Call (PullsMerge 1 Rebase) \<in> set (fst (on_check_suite_completed ?w test_payload))"
    using merge_method_first_true [OF h, of test_payload] r t n c by simp
  then show ?thesis using h r by simp
qed

text \<open>
  Claim C9. Every evaluation starts with the repository-metadata fetch, before the first
  guard. For a repository none of whose three capability flags is true the evaluation
  raises the no-allowed-merge-method error whatever the payload is: also with no attached
  pull request, and also when a guard would veto.
\<close>

theorem metadata_before_guards:
  "take 2 (fst (on_check_suite_completed w p)) = header p \<and>
   (\<forall>md. repos_get w = Inr md \<and> allow_merge_commit md \<noteq> Some True
          \<and> allow_squash_merge md \<noteq> Some True \<and> allow_rebase_merge md \<noteq> Some True \<longrightarrow>
      on_check_suite_completed w p =
        (header p, Some (Error ''No allowed merge method found for the repository.'')))"
proof (intro conjI allI impI)
  show "take 2 (fst (on_check_suite_completed w p)) = header p"
    by (simp add: on_check_suite_completed_def header_def case_prod_beta
        split: sum.split bool.split)
next
  fix md
  assume a: "repos_get w = Inr md \<and> allow_merge_commit md \<noteq> Some True
          \<and> allow_squash_merge md \<noteq> Some True \<and> allow_rebase_merge md \<noteq> Some True"
  then have "resolve_merge_method md =
      Inl (Error ''No allowed merge method found for the repository.'')"
    by (simp add: resolve_merge_method_def flag_def)
  then show "on_check_suite_completed w p =
        (header p, Some (Error ''No allowed merge method found for the repository.''))"
    using a run_no_method by blast
qed

theorem metadata_before_guards_witness:
  "on_check_suite_completed
     (test_world\<lparr>repos_get := Inr \<lparr>allow_merge_commit = None, allow_squash_merge = Some False,
        allow_rebase_merge = None\<rparr>\<rparr>)
     (test_payload\<lparr>pull_requests := []\<rparr>)
   = (test_header, Some (Error ''No allowed merge method found for the repository.''))"
  using metadata_before_guards
    [of "test_world\<lparr>repos_get := Inr \<lparr>allow_merge_commit = None,
        allow_squash_merge = Some False, allow_rebase_merge = None\<rparr>\<rparr>"
        "test_payload\<lparr>pull_requests := []\<rparr>"]
  by (simp add: header_def test_header_def test_payload_def)

section \<open>The guard chain\<close>

text \<open>
  Claim C1. The guard chain \<^verbatim>\<open>processMerge\<close> evaluates its seven guards in the order:
  a pull request is attached, head and base repository ids are equal, no review by the
  steward account, not merged, authored by Dependabot, configuration, check status. An
  evaluation whose first failing guard is the k-th consists of the reads of the guards up
  to the k-th and that guard's log line, and returns false. The sixth guard vetoes a
  \<^verbatim>\<open>.steward.yml\<close> that is not a file or not valid base64 (with the advisory comment unless
  the steward has commented), one whose \<^verbatim>\<open>enable\<close> is defined and falsy, and one whose
  entry for the ecosystem of the head branch has such an \<^verbatim>\<open>enable\<close>; it passes a missing
  file and an enabling document. The seventh vetoes pending and failed checks and passes
  otherwise. After a veto the handler returns with the events of the chain and nothing
  more, and whenever the chain does not end in "allow" the evaluation makes no
  approving-review call and no merge call.
\<close>

theorem guard_chain_order:
  "(pull_requests p = [] \<longrightarrow> processMerge w p = ([Log NoPullRequest], None, Inr False))
   \<and> (pop (pull_requests p) = Some pr \<longrightarrow>
        (base_repo_id pr \<noteq> head_repo_id pr \<longrightarrow>
           processMerge w p = ([Log (FromFork None)], None, Inr False))
      \<and> (base_repo_id pr = head_repo_id pr \<and> pulls_listReviews w (number pr) = Inr rs \<longrightarrow>
           (Some stewardUserId \<in> set rs \<longrightarrow>
              processMerge w p =
                ([Call (PullsListReviews (number pr)), Log (AlreadyReviewed (number pr))],
                 Some (number pr), Inr False))
         \<and> (Some stewardUserId \<notin> set rs \<and> pulls_get w (number pr) = Inr d \<longrightarrow>
              (merged d \<longrightarrow>
                 processMerge w p =
                   ([Call (PullsListReviews (number pr)), Call (PullsGet (number pr)),
                     Log (AlreadyMerged (number pr))], Some (number pr), Inr False))
            \<and> (\<not> merged d \<and> user_id d \<noteq> dependabotUserId \<longrightarrow>
                 processMerge w p =
                   ([Call (PullsListReviews (number pr)), Call (PullsGet (number pr)),
                     Log (NotFromDependabot (number pr))], Some (number pr), Inr False))
            \<and> (\<not> merged d \<and> user_id d = dependabotUserId
                \<and> issues_listComments w (number pr) = Inr cs \<longrightarrow>
                 (repos_getContent w (head_ref pr) stewardYmlFileName = Inr data \<longrightarrow>
                    (RepoContentSchema_parse data = Inl e
                     \<or> (RepoContentSchema_parse data = Inr (ty, c)
                         \<and> (ty \<noteq> ''file'' \<or> \<not> z_base64 w (filter (\<lambda>x. x \<noteq> CHR 0x0A) c))) \<longrightarrow>
                       processMerge w p =
                         (first_reads (number pr)
                            @ Call (ReposGetContent (head_ref pr) stewardYmlFileName) # Log NotAFile
                            # comment_once (Some stewardUserId \<in> set cs) (number pr),
                          Some (number pr), Inr False))
                  \<and> (RepoContentSchema_parse data = Inr (''file'', c)
                      \<and> z_base64 w (filter (\<lambda>x. x \<noteq> CHR 0x0A) c)
                      \<and> yaml_parse w (base64_to_utf8 w (filter (\<lambda>x. x \<noteq> CHR 0x0A) c)) = Inr y
                      \<and> get_prop y ''enable'' = Inr en \<longrightarrow>
                       (en \<noteq> JUndefined \<and> \<not> truthy en \<longrightarrow>
                          processMerge w p =
                            (first_reads (number pr)
                               @ [Call (ReposGetContent (head_ref pr) stewardYmlFileName),
                                  Log StewardDisabled],
                             Some (number pr), Inr False))
                     \<and> ((en = JUndefined \<or> truthy en)
                         \<and> find (includes_str (head_ref pr)) ecosystems = Some eco
                         \<and> get_prop y eco = Inr te \<longrightarrow>
                          (truthy te \<and> get_prop te ''enable'' = Inr en'
                           \<and> en' \<noteq> JUndefined \<and> \<not> truthy en' \<longrightarrow>
                             processMerge w p =
                               (first_reads (number pr)
                                  @ [Call (ReposGetContent (head_ref pr) stewardYmlFileName),
                                     Log (EcosystemDisabled eco)],
                                Some (number pr), Inr False))
                        \<and> (\<not> truthy te
                            \<or> (get_prop te ''enable'' = Inr en'
                                \<and> (en' = JUndefined \<or> truthy en')) \<longrightarrow>
                             steward_block w pr (Some stewardUserId \<in> set cs) =
                               ([Call (ReposGetContent (head_ref pr) stewardYmlFileName)],
                                Inr None)))))
               \<and> (repos_getContent w (head_ref pr) stewardYmlFileName = Inl e
                   \<and> error_status e = Some 404 \<longrightarrow>
                    steward_block w pr (Some stewardUserId \<in> set cs) =
                      ([Call (ReposGetContent (head_ref pr) stewardYmlFileName), Log NotFound],
                       Inr None))
               \<and> (steward_block w pr (Some stewardUserId \<in> set cs) = (t, Inr (Some b)) \<longrightarrow>
                    \<not> b \<and> filter is_check_read t = [] \<and>
                    processMerge w p = (first_reads (number pr) @ t, Some (number pr), Inr False))
               \<and> (steward_block w pr (Some stewardUserId \<in> set cs) = (t, Inr None) \<longrightarrow>
                    (check_status w pr = (t', Inr False) \<longrightarrow>
                       processMerge w p =
                         (first_reads (number pr) @ t @ t', Some (number pr), Inr False))
                  \<and> (checks_listSuitesForRef w (head_ref pr) = Inr sd
                      \<and> repos_getBranchRules w (base_ref pr) = Inr rules
                      \<and> (\<forall>s \<in> set (valid_suites sd).
                            request_check_runs w (check_runs_url s) = Inr (runs (check_runs_url s)))
                      \<longrightarrow>
                       (aggregate sd rules runs = Pending \<longrightarrow>
                          processMerge w p =
                            (first_reads (number pr) @ t
                               @ [Call (ChecksListSuitesForRef (head_ref pr)),
                                  Log (SuitesNotCompleted (number pr))],
                             Some (number pr), Inr False))
                     \<and> (aggregate sd rules runs = Fail \<longrightarrow>
                          processMerge w p =
                            (first_reads (number pr) @ t
                               @ Call (ChecksListSuitesForRef (head_ref pr))
                               # Call (ReposGetBranchRules (base_ref pr))
                               # map (\<lambda>s. Call (RequestCheckRuns (check_runs_url s)))
                                   (valid_suites sd)
                               @ [Log (ChecksNotPassed (number pr))],
                             Some (number pr), Inr False))
                     \<and> (aggregate sd rules runs = Pass \<longrightarrow>
                          snd (snd (processMerge w p)) = Inr True)))))))
   \<and> (snd (snd (processMerge w p)) = Inr False \<longrightarrow>
        on_check_suite_completed w p =
          (case repos_get w of
             Inl e \<Rightarrow> (header p, Some e)
           | Inr md \<Rightarrow>
               (case resolve_merge_method md of
                  Inl e \<Rightarrow> (header p, Some e)
                | Inr mm \<Rightarrow> (header p @ fst (processMerge w p), None))))
   \<and> (snd (snd (processMerge w p)) \<noteq> Inr True \<longrightarrow>
        filter is_review_or_merge (fst (on_check_suite_completed w p)) = [])"
proof (intro conjI impI; (elim conjE)?)
  assume "pull_requests p = []"
  then show "processMerge w p = ([Log NoPullRequest], None, Inr False)"
    by (rule guard_no_pr)
next
  assume "pop (pull_requests p) = Some pr" "base_repo_id pr \<noteq> head_repo_id pr"
  then show "processMerge w p = ([Log (FromFork None)], None, Inr False)"
    by (rule guard_fork)
next
  assume pr: "pop (pull_requests p) = Some pr" "base_repo_id pr = head_repo_id pr"
    and rs: "pulls_listReviews w (number pr) = Inr rs" "Some stewardUserId \<in> set rs"
  show "processMerge w p =
      ([Call (PullsListReviews (number pr)), Log (AlreadyReviewed (number pr))],
       Some (number pr), Inr False)"
    using processMerge_same_repo [OF pr, of w] guard_reviewed [OF rs] by simp
next
  assume pr: "pop (pull_requests p) = Some pr" "base_repo_id pr = head_repo_id pr"
    and rs: "pulls_listReviews w (number pr) = Inr rs" "Some stewardUserId \<notin> set rs"
    and d: "pulls_get w (number pr) = Inr d" "merged d"
  show "processMerge w p =
      ([Call (PullsListReviews (number pr)), Call (PullsGet (number pr)),
        Log (AlreadyMerged (number pr))], Some (number pr), Inr False)"
    using processMerge_same_repo [OF pr, of w] guard_merged [OF rs d] by simp
next
  assume pr: "pop (pull_requests p) = Some pr" "base_repo_id pr = head_repo_id pr"
    and rs: "pulls_listReviews w (number pr) = Inr rs" "Some stewardUserId \<notin> set rs"
    and d: "pulls_get w (number pr) = Inr d" "\<not> merged d" "user_id d \<noteq> dependabotUserId"
  show "processMerge w p =
      ([Call (PullsListReviews (number pr)), Call (PullsGet (number pr)),
        Log (NotFromDependabot (number pr))], Some (number pr), Inr False)"
    using processMerge_same_repo [OF pr, of w] guard_author [OF rs d] by simp
next
  assume pr: "pop (pull_requests p) = Some pr" "base_repo_id pr = head_repo_id pr"
    and rs: "pulls_listReviews w (number pr) = Inr rs" "Some stewardUserId \<notin> set rs"
    and d: "pulls_get w (number pr) = Inr d" "\<not> merged d" "user_id d = dependabotUserId"
    and cs: "issues_listComments w (number pr) = Inr cs"
    and c: "repos_getContent w (head_ref pr) stewardYmlFileName = Inr data"
      "RepoContentSchema_parse data = Inl e
         \<or> (RepoContentSchema_parse data = Inr (ty, c)
             \<and> (ty \<noteq> ''file'' \<or> \<not> z_base64 w (filter (\<lambda>x. x \<noteq> CHR 0x0A) c)))"
  show "processMerge w p =
      (first_reads (number pr)
         @ Call (ReposGetContent (head_ref pr) stewardYmlFileName) # Log NotAFile
         # comment_once (Some stewardUserId \<in> set cs) (number pr),
       Some (number pr), Inr False)"
    by (rule processMerge_at_config [OF pr rs d cs steward_block_invalid [OF c]])
next
  assume pr: "pop (pull_requests p) = Some pr" "base_repo_id pr = head_repo_id pr"
    and rs: "pulls_listReviews w (number pr) = Inr rs" "Some stewardUserId \<notin> set rs"
    and d: "pulls_get w (number pr) = Inr d" "\<not> merged d" "user_id d = dependabotUserId"
    and cs: "issues_listComments w (number pr) = Inr cs"
    and c: "repos_getContent w (head_ref pr) stewardYmlFileName = Inr data"
      "RepoContentSchema_parse data = Inr (''file'', c)"
      "z_base64 w (filter (\<lambda>x. x \<noteq> CHR 0x0A) c)"
      "yaml_parse w (base64_to_utf8 w (filter (\<lambda>x. x \<noteq> CHR 0x0A) c)) = Inr y"
      "get_prop y ''enable'' = Inr en" "en \<noteq> JUndefined" "\<not> truthy en"
  show "processMerge w p =
      (first_reads (number pr)
         @ [Call (ReposGetContent (head_ref pr) stewardYmlFileName), Log StewardDisabled],
       Some (number pr), Inr False)"
    by (rule processMerge_at_config [OF pr rs d cs steward_block_disabled [OF c]])
next
  assume pr: "pop (pull_requests p) = Some pr" "base_repo_id pr = head_repo_id pr"
    and rs: "pulls_listReviews w (number pr) = Inr rs" "Some stewardUserId \<notin> set rs"
    and d: "pulls_get w (number pr) = Inr d" "\<not> merged d" "user_id d = dependabotUserId"
    and cs: "issues_listComments w (number pr) = Inr cs"
    and c: "repos_getContent w (head_ref pr) stewardYmlFileName = Inr data"
      "RepoContentSchema_parse data = Inr (''file'', c)"
      "z_base64 w (filter (\<lambda>x. x \<noteq> CHR 0x0A) c)"
      "yaml_parse w (base64_to_utf8 w (filter (\<lambda>x. x \<noteq> CHR 0x0A) c)) = Inr y"
      "get_prop y ''enable'' = Inr en" "en = JUndefined \<or> truthy en"
      "find (includes_str (head_ref pr)) ecosystems = Some eco"
      "get_prop y eco = Inr te" "truthy te"
      "get_prop te ''enable'' = Inr en'" "en' \<noteq> JUndefined" "\<not> truthy en'"
  show "processMerge w p =
      (first_reads (number pr)
         @ [Call (ReposGetContent (head_ref pr) stewardYmlFileName),
            Log (EcosystemDisabled eco)],
       Some (number pr), Inr False)"
    by (rule processMerge_at_config [OF pr rs d cs steward_block_ecosystem_disabled [OF c]])
next
  assume c: "repos_getContent w (head_ref pr) stewardYmlFileName = Inr data"
      "RepoContentSchema_parse data = Inr (''file'', c)"
      "z_base64 w (filter (\<lambda>x. x \<noteq> CHR 0x0A) c)"
      "yaml_parse w (base64_to_utf8 w (filter (\<lambda>x. x \<noteq> CHR 0x0A) c)) = Inr y"
      "get_prop y ''enable'' = Inr en" "en = JUndefined \<or> truthy en"
      "find (includes_str (head_ref pr)) ecosystems = Some eco"
      "get_prop y eco = Inr te"
      "\<not> truthy te \<or> (get_prop te ''enable'' = Inr en' \<and> (en' = JUndefined \<or> truthy en'))"
  show "steward_block w pr (Some stewardUserId \<in> set cs) =
      ([Call (ReposGetContent (head_ref pr) stewardYmlFileName)], Inr None)"
    by (rule steward_block_enabled [OF c])
next
  assume c: "repos_getContent w (head_ref pr) stewardYmlFileName = Inl e"
      "error_status e = Some 404"
  show "steward_block w pr (Some stewardUserId \<in> set cs) =
      ([Call (ReposGetContent (head_ref pr) stewardYmlFileName), Log NotFound], Inr None)"
    by (rule steward_block_absent [OF c])
next
  assume s: "steward_block w pr (Some stewardUserId \<in> set cs) = (t, Inr (Some b))"
  show "\<not> b" using steward_block_never_true [of w pr "Some stewardUserId \<in> set cs"] s by auto
next
  assume s: "steward_block w pr (Some stewardUserId \<in> set cs) = (t, Inr (Some b))"
  show "filter is_check_read t = []"
    using steward_block_no_check_read [of w pr "Some stewardUserId \<in> set cs"] s by simp
next
  assume pr: "pop (pull_requests p) = Some pr" "base_repo_id pr = head_repo_id pr"
    and rs: "pulls_listReviews w (number pr) = Inr rs" "Some stewardUserId \<notin> set rs"
    and d: "pulls_get w (number pr) = Inr d" "\<not> merged d" "user_id d = dependabotUserId"
    and cs: "issues_listComments w (number pr) = Inr cs"
    and s: "steward_block w pr (Some stewardUserId \<in> set cs) = (t, Inr (Some b))"
  have "\<not> b"
    using steward_block_never_true [of w pr "Some stewardUserId \<in> set cs"] s by auto
  then have s': "steward_block w pr (Some stewardUserId \<in> set cs) = (t, Inr (Some False))"
    using s by simp
  show "processMerge w p = (first_reads (number pr) @ t, Some (number pr), Inr False)"
    by (rule processMerge_at_config [OF pr rs d cs s'])
next
  assume pr: "pop (pull_requests p) = Some pr" "base_repo_id pr = head_repo_id pr"
    and rs: "pulls_listReviews w (number pr) = Inr rs" "Some stewardUserId \<notin> set rs"
    and d: "pulls_get w (number pr) = Inr d" "\<not> merged d" "user_id d = dependabotUserId"
    and cs: "issues_listComments w (number pr) = Inr cs"
    and s: "steward_block w pr (Some stewardUserId \<in> set cs) = (t, Inr None)"
    and c: "check_status w pr = (t', Inr False)"
  show "processMerge w p = (first_reads (number pr) @ t @ t', Some (number pr), Inr False)"
    using processMerge_past_config [OF pr rs d cs s] c by simp
next
  assume pr: "pop (pull_requests p) = Some pr" "base_repo_id pr = head_repo_id pr"
    and rs: "pulls_listReviews w (number pr) = Inr rs" "Some stewardUserId \<notin> set rs"
    and d: "pulls_get w (number pr) = Inr d" "\<not> merged d" "user_id d = dependabotUserId"
    and cs: "issues_listComments w (number pr) = Inr cs"
    and s: "steward_block w pr (Some stewardUserId \<in> set cs) = (t, Inr None)"
    and k: "checks_listSuitesForRef w (head_ref pr) = Inr sd"
      "repos_getBranchRules w (base_ref pr) = Inr rules"
      "\<forall>s \<in> set (valid_suites sd).
          request_check_runs w (check_runs_url s) = Inr (runs (check_runs_url s))"
    and a: "aggregate sd rules runs = Pending"
  show "processMerge w p =
      (first_reads (number pr) @ t
         @ [Call (ChecksListSuitesForRef (head_ref pr)), Log (SuitesNotCompleted (number pr))],
       Some (number pr), Inr False)"
    using processMerge_past_config [OF pr rs d cs s] check_status_by_aggregate(1) [OF k a]
    by simp
next
  assume pr: "pop (pull_requests p) = Some pr" "base_repo_id pr = head_repo_id pr"
    and rs: "pulls_listReviews w (number pr) = Inr rs" "Some stewardUserId \<notin> set rs"
    and d: "pulls_get w (number pr) = Inr d" "\<not> merged d" "user_id d = dependabotUserId"
    and cs: "issues_listComments w (number pr) = Inr cs"
    and s: "steward_block w pr (Some stewardUserId \<in> set cs) = (t, Inr None)"
    and k: "checks_listSuitesForRef w (head_ref pr) = Inr sd"
      "repos_getBranchRules w (base_ref pr) = Inr rules"
      "\<forall>s \<in> set (valid_suites sd).
          request_check_runs w (check_runs_url s) = Inr (runs (check_runs_url s))"
    and a: "aggregate sd rules runs = Fail"
  show "processMerge w p =
      (first_reads (number pr) @ t
         @ Call (ChecksListSuitesForRef (head_ref pr))
         # Call (ReposGetBranchRules (base_ref pr))
         # map (\<lambda>s. Call (RequestCheckRuns (check_runs_url s))) (valid_suites sd)
         @ [Log (ChecksNotPassed (number pr))],
       Some (number pr), Inr False)"
    using processMerge_past_config [OF pr rs d cs s] check_status_by_aggregate(2) [OF k a]
    by simp
next
  assume pr: "pop (pull_requests p) = Some pr" "base_repo_id pr = head_repo_id pr"
    and rs: "pulls_listReviews w (number pr) = Inr rs" "Some stewardUserId \<notin> set rs"
    and d: "pulls_get w (number pr) = Inr d" "\<not> merged d" "user_id d = dependabotUserId"
    and cs: "issues_listComments w (number pr) = Inr cs"
    and s: "steward_block w pr (Some stewardUserId \<in> set cs) = (t, Inr None)"
    and k: "checks_listSuitesForRef w (head_ref pr) = Inr sd"
      "repos_getBranchRules w (base_ref pr) = Inr rules"
      "\<forall>s \<in> set (valid_suites sd).
          request_check_runs w (check_runs_url s) = Inr (runs (check_runs_url s))"
    and a: "aggregate sd rules runs = Pass"
  show "snd (snd (processMerge w p)) = Inr True"
    using processMerge_past_config [OF pr rs d cs s] check_status_by_aggregate(3) [OF k a]
    by simp
next
  assume "snd (snd (processMerge w p)) = Inr False"
  then show "on_check_suite_completed w p =
          (case repos_get w of
             Inl e \<Rightarrow> (header p, Some e)
           | Inr md \<Rightarrow>
               (case resolve_merge_method md of
                  Inl e \<Rightarrow> (header p, Some e)
                | Inr mm \<Rightarrow> (header p @ fst (processMerge w p), None)))"
    by (rule run_of_veto)
next
  assume "snd (snd (processMerge w p)) \<noteq> Inr True"
  then show "filter is_review_or_merge (fst (on_check_suite_completed w p)) = []"
    by (rule run_without_allow)
qed

theorem guard_chain_order_witness:
  "processMerge test_world (test_payload\<lparr>pull_requests := []\<rparr>) =
     ([Log NoPullRequest], None, Inr False)
   \<and> processMerge merged_world test_payload =
     ([Call (PullsListReviews 1), Call (PullsGet 1), Log (AlreadyMerged 1)], Some 1, Inr False)
   \<and> processMerge dir_world test_payload =
     (first_reads 1 @ [Call (ReposGetContent test_head_ref stewardYmlFileName), Log NotAFile,
        Call (IssuesCreateComment 1 must_be_a_file)], Some 1, Inr False)
   \<and> processMerge disabled_world test_payload =
     (first_reads 1 @ [Call (ReposGetContent test_head_ref stewardYmlFileName),
        Log StewardDisabled], Some 1, Inr False)
   \<and> processMerge ecosystem_disabled_world test_payload =
     (first_reads 1 @ [Call (ReposGetContent test_head_ref stewardYmlFileName),
        Log (EcosystemDisabled ''npm_and_yarn'')], Some 1, Inr False)
   \<and> processMerge pending_world test_payload =
     (first_reads 1 @ [Call (ReposGetContent test_head_ref stewardYmlFileName),
        Call (ChecksListSuitesForRef test_head_ref), Log (SuitesNotCompleted 1)],
      Some 1, Inr False)
   \<and> processMerge failed_world test_payload =
     (first_reads 1 @ [Call (ReposGetContent test_head_ref stewardYmlFileName),
        Call (ChecksListSuitesForRef test_head_ref), Call (ReposGetBranchRules ''main''),
        Call (RequestCheckRuns ''runs/1''), Log (ChecksNotPassed 1)],
      Some 1, Inr False)
   \<and> on_check_suite_completed disabled_world test_payload =
     (test_header @ first_reads 1 @ [Call (ReposGetContent test_head_ref stewardYmlFileName),
        Log StewardDisabled], None)
   \<and> filter is_review_or_merge (fst (on_check_suite_completed disabled_world test_payload)) = []"
proof -
  note pr = test_pr_passes
  have no_pr: "processMerge test_world (test_payload\<lparr>pull_requests := []\<rparr>) =
     ([Log NoPullRequest], None, Inr False)"
    using guard_chain_order [where w = test_world and p = "test_payload\<lparr>pull_requests := []\<rparr>"]
    by simp
  have m0: "pulls_listReviews merged_world 1 = Inr []"
      "pulls_get merged_world 1 = Inr \<lparr>merged = True, user_id = dependabotUserId\<rparr>"
    by (simp_all add: merged_world_def test_world_def)
  have merged: "processMerge merged_world test_payload =
     ([Call (PullsListReviews 1), Call (PullsGet 1), Log (AlreadyMerged 1)], Some 1, Inr False)"
    using guard_chain_order [where w = merged_world and p = test_payload and pr = test_pr
        and rs = "[]" and d = "\<lparr>merged = True, user_id = dependabotUserId\<rparr>"] pr m0
    by simp
  have f0: "pulls_listReviews dir_world 1 = Inr []"
      "pulls_get dir_world 1 = Inr \<lparr>merged = False, user_id = dependabotUserId\<rparr>"
      "issues_listComments dir_world 1 = Inr []"
      "repos_getContent dir_world test_head_ref stewardYmlFileName =
         Inr (ContentObject ''dir'' (Some []) (Some ''base64''))"
      "RepoContentSchema_parse (ContentObject ''dir'' (Some []) (Some ''base64'')) = Inr (''dir'', [])"
    by (simp_all add: dir_world_def test_world_def)
  have dir: "processMerge dir_world test_payload =
     (first_reads 1 @ [Call (ReposGetContent test_head_ref stewardYmlFileName), Log NotAFile,
        Call (IssuesCreateComment 1 must_be_a_file)], Some 1, Inr False)"
    using guard_chain_order [where w = dir_world and p = test_payload and pr = test_pr
        and rs = "[]" and d = "\<lparr>merged = False, user_id = dependabotUserId\<rparr>" and cs = "[]"
        and data = "ContentObject ''dir'' (Some []) (Some ''base64'')" and ty = "''dir''"
        and c = "[]"] pr f0
    by (simp add: comment_once_def)
  have d0: "pulls_listReviews disabled_world 1 = Inr []"
      "pulls_get disabled_world 1 = Inr \<lparr>merged = False, user_id = dependabotUserId\<rparr>"
      "issues_listComments disabled_world 1 = Inr []"
      "repos_getContent disabled_world test_head_ref stewardYmlFileName =
         Inr (ContentObject ''file'' (Some ''ZW5hYmxlOiBmYWxzZQ=='') (Some ''base64''))"
      "RepoContentSchema_parse (ContentObject ''file'' (Some ''ZW5hYmxlOiBmYWxzZQ=='') (Some ''base64''))
         = Inr (''file'', ''ZW5hYmxlOiBmYWxzZQ=='')"
      "z_base64 disabled_world (filter (\<lambda>x. x \<noteq> CHR 0x0A) ''ZW5hYmxlOiBmYWxzZQ=='')"
      "yaml_parse disabled_world
         (base64_to_utf8 disabled_world (filter (\<lambda>x. x \<noteq> CHR 0x0A) ''ZW5hYmxlOiBmYWxzZQ==''))
         = Inr (JObj [(''enable'', JBool False)])"
      "get_prop (JObj [(''enable'', JBool False)]) ''enable'' = Inr (JBool False)"
    by (simp_all add: disabled_world_def test_world_def)
  have disabled: "processMerge disabled_world test_payload =
     (first_reads 1 @ [Call (ReposGetContent test_head_ref stewardYmlFileName),
        Log StewardDisabled], Some 1, Inr False)"
    using guard_chain_order [where w = disabled_world and p = test_payload and pr = test_pr
        and rs = "[]" and d = "\<lparr>merged = False, user_id = dependabotUserId\<rparr>" and cs = "[]"
        and data = "ContentObject ''file'' (Some ''ZW5hYmxlOiBmYWxzZQ=='') (Some ''base64'')"
        and c = "''ZW5hYmxlOiBmYWxzZQ==''" and y = "JObj [(''enable'', JBool False)]"
        and en = "JBool False"] pr d0
    by simp
  have e0: "pulls_listReviews ecosystem_disabled_world 1 = Inr []"
      "pulls_get ecosystem_disabled_world 1 = Inr \<lparr>merged = False, user_id = dependabotUserId\<rparr>"
      "issues_listComments ecosystem_disabled_world 1 = Inr []"
      "repos_getContent ecosystem_disabled_world test_head_ref stewardYmlFileName =
         Inr (ContentObject ''file'' (Some ''bnBtX2FuZF95YXJuOgogIGVuYWJsZTogZmFsc2U='')
                (Some ''base64''))"
      "RepoContentSchema_parse
         (ContentObject ''file'' (Some ''bnBtX2FuZF95YXJuOgogIGVuYWJsZTogZmFsc2U='')
            (Some ''base64''))
         = Inr (''file'', ''bnBtX2FuZF95YXJuOgogIGVuYWJsZTogZmFsc2U='')"
      "z_base64 ecosystem_disabled_world
         (filter (\<lambda>x. x \<noteq> CHR 0x0A) ''bnBtX2FuZF95YXJuOgogIGVuYWJsZTogZmFsc2U='')"
      "yaml_parse ecosystem_disabled_world
         (base64_to_utf8 ecosystem_disabled_world
            (filter (\<lambda>x. x \<noteq> CHR 0x0A) ''bnBtX2FuZF95YXJuOgogIGVuYWJsZTogZmFsc2U=''))
         = Inr (JObj [(''npm_and_yarn'', JObj [(''enable'', JBool False)])])"
      "get_prop (JObj [(''npm_and_yarn'', JObj [(''enable'', JBool False)])]) ''enable''
         = Inr JUndefined"
      "get_prop (JObj [(''npm_and_yarn'', JObj [(''enable'', JBool False)])]) ''npm_and_yarn''
         = Inr (JObj [(''enable'', JBool False)])"
      "get_prop (JObj [(''enable'', JBool False)]) ''enable'' = Inr (JBool False)"
    by (simp_all add: ecosystem_disabled_world_def test_world_def)
  have e1: "find (includes_str test_head_ref) ecosystems = Some ''npm_and_yarn''"
    by code_simp
  have eco: "processMerge ecosystem_disabled_world test_payload =
     (first_reads 1 @ [Call (ReposGetContent test_head_ref stewardYmlFileName),
        Log (EcosystemDisabled ''npm_and_yarn'')], Some 1, Inr False)"
    using guard_chain_order [where w = ecosystem_disabled_world and p = test_payload
        and pr = test_pr and rs = "[]"
        and d = "\<lparr>merged = False, user_id = dependabotUserId\<rparr>" and cs = "[]"
        and data = "ContentObject ''file'' (Some ''bnBtX2FuZF95YXJuOgogIGVuYWJsZTogZmFsc2U='')
                      (Some ''base64'')"
        and c = "''bnBtX2FuZF95YXJuOgogIGVuYWJsZTogZmFsc2U=''"
        and y = "JObj [(''npm_and_yarn'', JObj [(''enable'', JBool False)])]"
        and en = JUndefined and eco = "''npm_and_yarn''"
        and te = "JObj [(''enable'', JBool False)]" and en' = "JBool False"] pr e0 e1
    by simp
  have p0: "pulls_listReviews pending_world 1 = Inr []"
      "pulls_get pending_world 1 = Inr \<lparr>merged = False, user_id = dependabotUserId\<rparr>"
      "issues_listComments pending_world 1 = Inr []"
      "checks_listSuitesForRef pending_world test_head_ref =
         Inr \<lparr>total_count = 1,
              check_suites = [\<lparr>status = ''in_progress'', latest_check_runs_count = 1,
                               check_runs_url = ''runs/1''\<rparr>]\<rparr>"
      "repos_getBranchRules pending_world ''main'' = Inr []"
    by (simp_all add: pending_world_def test_world_def)
  have p1: "steward_block pending_world test_pr False =
      ([Call (ReposGetContent test_head_ref stewardYmlFileName)], Inr None)"
    by code_simp
  have p2: "aggregate \<lparr>total_count = 1,
              check_suites = [\<lparr>status = ''in_progress'', latest_check_runs_count = 1,
                               check_runs_url = ''runs/1''\<rparr>]\<rparr> [] no_runs = Pending"
    by (simp add: aggregate_def valid_suites_def)
  have p3: "\<forall>s \<in> set (valid_suites \<lparr>total_count = 1,
              check_suites = [\<lparr>status = ''in_progress'', latest_check_runs_count = 1,
                               check_runs_url = ''runs/1''\<rparr>]\<rparr>).
      request_check_runs pending_world (check_runs_url s) = Inr (no_runs (check_runs_url s))"
    by (simp add: pending_world_def test_world_def no_runs_def)
  have pending: "processMerge pending_world test_payload =
     (first_reads 1 @ [Call (ReposGetContent test_head_ref stewardYmlFileName),
        Call (ChecksListSuitesForRef test_head_ref), Log (SuitesNotCompleted 1)],
      Some 1, Inr False)"
    using guard_chain_order [where w = pending_world and p = test_payload and pr = test_pr
        and rs = "[]" and d = "\<lparr>merged = False, user_id = dependabotUserId\<rparr>" and cs = "[]"
        and t = "[Call (ReposGetContent test_head_ref stewardYmlFileName)]"
        and sd = "\<lparr>total_count = 1,
              check_suites = [\<lparr>status = ''in_progress'', latest_check_runs_count = 1,
                               check_runs_url = ''runs/1''\<rparr>]\<rparr>"
        and rules = "[]" and runs = no_runs] pr p0 p1 p2 p3
    by simp
  let ?sd = "\<lparr>total_count = 1,
              check_suites = [\<lparr>status = ''completed'', latest_check_runs_count = 1,
                               check_runs_url = ''runs/1''\<rparr>]\<rparr>"
  let ?rules = "[\<lparr>rule_type = ''required_status_checks'', parameters = Some [''test-check'']\<rparr>]"
  have q0: "pulls_listReviews failed_world 1 = Inr []"
      "pulls_get failed_world 1 = Inr \<lparr>merged = False, user_id = dependabotUserId\<rparr>"
      "issues_listComments failed_world 1 = Inr []"
      "checks_listSuitesForRef failed_world test_head_ref = Inr ?sd"
      "repos_getBranchRules failed_world ''main'' = Inr ?rules"
    by (simp_all add: failed_world_def test_world_def)
  have q1: "steward_block failed_world test_pr False =
      ([Call (ReposGetContent test_head_ref stewardYmlFileName)], Inr None)"
    by code_simp
  have q2: "aggregate ?sd ?rules no_runs = Fail"
    by (simp add: aggregate_def valid_suites_def required_checks_def passed_names_def no_runs_def)
  have q3: "\<forall>s \<in> set (valid_suites ?sd).
      request_check_runs failed_world (check_runs_url s) = Inr (no_runs (check_runs_url s))"
    by (simp add: failed_world_def test_world_def no_runs_def)
  have q4: "valid_suites ?sd = [\<lparr>status = ''completed'', latest_check_runs_count = 1,
                               check_runs_url = ''runs/1''\<rparr>]"
    by (simp add: valid_suites_def)
  have failed: "processMerge failed_world test_payload =
     (first_reads 1 @ [Call (ReposGetContent test_head_ref stewardYmlFileName),
        Call (ChecksListSuitesForRef test_head_ref), Call (ReposGetBranchRules ''main''),
        Call (RequestCheckRuns ''runs/1''), Log (ChecksNotPassed 1)],
      Some 1, Inr False)"
    using guard_chain_order [where w = failed_world and p = test_payload and pr = test_pr
        and rs = "[]" and d = "\<lparr>merged = False, user_id = dependabotUserId\<rparr>" and cs = "[]"
        and t = "[Call (ReposGetContent test_head_ref stewardYmlFileName)]"
        and sd = ?sd and rules = ?rules and runs = no_runs] pr q0 q1 q2 q3 q4
    by simp
  have r0: "repos_get disabled_world = Inr \<lparr>allow_merge_commit = Some True,
        allow_squash_merge = None, allow_rebase_merge = None\<rparr>"
    by (simp add: disabled_world_def test_world_def)
  have hd: "header test_payload = test_header"
    by (simp add: header_def test_header_def test_payload_def)
  have veto: "snd (snd (processMerge disabled_world test_payload)) = Inr False"
    by (simp add: disabled)
  have run: "on_check_suite_completed disabled_world test_payload =
     (test_header @ first_reads 1 @ [Call (ReposGetContent test_head_ref stewardYmlFileName),
        Log StewardDisabled], None)"
    using guard_chain_order [where w = disabled_world and p = test_payload,
        THEN conjunct2, THEN conjunct2, THEN conjunct1, THEN mp, OF veto]
    by (simp add: r0 test_world_method(2) hd disabled)
  have quiet: "filter is_review_or_merge (fst (on_check_suite_completed disabled_world test_payload)) = []"
    using guard_chain_order [where w = disabled_world and p = test_payload,
        THEN conjunct2, THEN conjunct2, THEN conjunct2, THEN mp] veto
    by simp
  show ?thesis
    using no_pr merged dir disabled eco pending failed run quiet by simp
qed

section \<open>The merge executor\<close>

text \<open>
  Claim C8. When the decision is allow (for a pull request number other than 0, which the
  handler rejects), the guard chain itself has made no approval and no merge; then the
  approving review (event APPROVE) is submitted first. If it fails its error reaches the
  caller and no merge is attempted. If it succeeds the merge is requested with the
  selected method; a failure of the merge is written to the console and the handler
  returns without an error.
\<close>

theorem approve_then_merge:
  assumes md: "repos_get w = Inr md" and mm: "resolve_merge_method md = Inr mm"
    and allow: "snd (snd (processMerge w p)) = Inr True"
    and n: "n = number (last (pull_requests p))" and n0: "n \<noteq> 0"
  shows
    "filter is_review_or_merge (fst (processMerge w p)) = []
   \<and> (\<forall>e. pulls_createReview w n = Inl e \<longrightarrow>
          on_check_suite_completed w p =
            (header p @ fst (processMerge w p) @ [Call (PullsCreateReview n ''APPROVE'')], Some e))
   \<and> (pulls_createReview w n = Inr () \<longrightarrow>
          (\<forall>e. pulls_merge w n mm = Inl e \<longrightarrow>
             on_check_suite_completed w p =
               (header p @ fst (processMerge w p) @
                  [Call (PullsCreateReview n ''APPROVE''), Call (PullsMerge n mm), ConsoleError e],
                None))
        \<and> (pulls_merge w n mm = Inr () \<longrightarrow>
             on_check_suite_completed w p =
               (header p @ fst (processMerge w p) @
                  [Call (PullsCreateReview n ''APPROVE''), Call (PullsMerge n mm),
                   Log (MergedSuccessfully n mm)],
                None)))"
proof -
  have pn: "fst (snd (processMerge w p)) = Some n"
    using processMerge_true [OF allow] n by simp
  have run: "on_check_suite_completed w p =
      (header p @ fst (processMerge w p) @ fst (approve_and_merge w (Some n) mm),
       snd (approve_and_merge w (Some n) mm))"
    using run_unfold [OF md mm, of p] allow pn by simp
  show ?thesis
    using n0 by (simp add: run processMerge_quiet approve_and_merge_def)
qed

theorem approve_then_merge_witness:
  "on_check_suite_completed (test_world\<lparr>pulls_merge := (\<lambda>n m. Inl (RequestError 405))\<rparr>)
      test_payload
    = (test_header @ [Call (PullsListReviews 1), Call (PullsGet 1), Call (IssuesListComments 1),
          Call (ReposGetContent ''dependabot/npm_and_yarn/test/test-package-1.0.0'' ''.steward.yml''),
          Call (ChecksListSuitesForRef ''dependabot/npm_and_yarn/test/test-package-1.0.0''),
          Call (PullsCreateReview 1 ''APPROVE''), Call (PullsMerge 1 Merge),
          ConsoleError (RequestError 405)], None)"
proof -
  let ?w = "test_world\<lparr>pulls_merge := (\<lambda>n m. Inl (RequestError 405))\<rparr>"
  let ?md = "\<lparr>allow_merge_commit = Some True, allow_squash_merge = None,
            allow_rebase_merge = None\<rparr>"
  have md: "repos_get ?w = Inr ?md" by (simp add: test_world_def)
  have pm: "processMerge ?w test_payload =
     ([Call (PullsListReviews 1), Call (PullsGet 1), Call (IssuesListComments 1),
          Call (ReposGetContent ''dependabot/npm_and_yarn/test/test-package-1.0.0'' ''.steward.yml''),
          Call (ChecksListSuitesForRef ''dependabot/npm_and_yarn/test/test-package-1.0.0'')],
      Some 1, Inr True)"
    by code_simp
  have allow: "snd (snd (processMerge ?w test_payload)) = Inr True" by (simp add: pm)
  have n: "(1::int) = number (last (pull_requests test_payload))"
    by (simp add: test_payload_def test_pr_def)
  have n0: "(1::int) \<noteq> 0" by simp
  have r: "pulls_createReview ?w 1 = Inr ()" "pulls_merge ?w 1 Merge = Inl (RequestError 405)"
    by (simp_all add: test_world_def)
  have hd: "header test_payload = test_header"
    by (simp add: header_def test_header_def test_payload_def)
  show ?thesis
    using approve_then_merge [OF md test_world_method(2) allow n n0] r hd pm by simp
qed

section \<open>More than one attached pull request\<close>

text \<open>
  Claim C10. Of the attached pull requests only the last is evaluated: the evaluation is
  the one of the payload holding that pull request alone, every event that names a pull
  request names the last one, and so an approval or a merge is only ever of the last one.
\<close>

theorem only_last_pull_request:
  "on_check_suite_completed w (p\<lparr>pull_requests := prs @ [pr]\<rparr>)
     = on_check_suite_completed w (p\<lparr>pull_requests := [pr]\<rparr>)
   \<and> list_all (\<lambda>e. pull_number_of e = None \<or> pull_number_of e = Some (number pr))
        (fst (on_check_suite_completed w (p\<lparr>pull_requests := prs @ [pr]\<rparr>)))
   \<and> (\<forall>n ev m.
        Call (PullsCreateReview n ev) \<in> set (fst (on_check_suite_completed w (p\<lparr>pull_requests := prs @ [pr]\<rparr>)))
        \<or> Call (PullsMerge n m) \<in> set (fst (on_check_suite_completed w (p\<lparr>pull_requests := prs @ [pr]\<rparr>)))
        \<longrightarrow> n = number pr)"
proof -
  let ?p = "p\<lparr>pull_requests := prs @ [pr]\<rparr>"
  have pop: "pop (pull_requests ?p) = Some pr" by (simp add: pop_def)
  have pm: "processMerge w ?p = processMerge w (p\<lparr>pull_requests := [pr]\<rparr>)"
    by (simp add: processMerge_def pop_def)
  have eq: "on_check_suite_completed w ?p = on_check_suite_completed w (p\<lparr>pull_requests := [pr]\<rparr>)"
    unfolding on_check_suite_completed_def pm
    by (simp split: sum.split prod.split bool.split)
  have q: "list_all (quiet pr) (fst (processMerge w ?p))"
    using processMerge_events [OF pop] .
  have pn: "fst (snd (processMerge w ?p)) = None \<or> fst (snd (processMerge w ?p)) = Some (number pr)"
    using pop by (simp add: processMerge_def case_prod_beta)
  have am: "\<And>mm. list_all (\<lambda>e. pull_number_of e = None \<or> pull_number_of e = Some (number pr))
      (fst (approve_and_merge w (fst (snd (processMerge w ?p))) mm))"
    using pn by (auto simp: approve_and_merge_def split: sum.split)
  have all: "list_all (\<lambda>e. pull_number_of e = None \<or> pull_number_of e = Some (number pr))
        (fst (on_check_suite_completed w ?p))"
  proof (cases "repos_get w")
    case (Inl e)
    then show ?thesis by (simp add: run_no_metadata header_def)
  next
    case (Inr md)
    show ?thesis
    proof (cases "resolve_merge_method md")
      case (Inl e)
      then show ?thesis using Inr by (simp add: run_no_method header_def)
    next
      case mm: (Inr mm)
      show ?thesis
        using q am [of mm] run_unfold [OF Inr mm, of ?p]
        by (auto simp: header_def quiet_def list_all_iff split: sum.splits if_splits)
    qed
  qed
  have "\<And>n ev m. Call (PullsCreateReview n ev) \<in> set (fst (on_check_suite_completed w ?p))
        \<or> Call (PullsMerge n m) \<in> set (fst (on_check_suite_completed w ?p)) \<Longrightarrow> n = number pr"
    using all by (auto simp: list_all_iff)
  then show ?thesis using eq all by blast
qed

theorem only_last_pull_request_witness:
  "on_check_suite_completed test_world
      (test_payload\<lparr>pull_requests := [test_pr\<lparr>number := 7\<rparr>] @ [test_pr]\<rparr>)
    = on_check_suite_completed test_world (test_payload\<lparr>pull_requests := [test_pr]\<rparr>)
   \<and> Call (PullsMerge 1 Merge) \<in> set (fst (on_check_suite_completed test_world
      (test_payload\<lparr>pull_requests := [test_pr\<lparr>number := 7\<rparr>] @ [test_pr]\<rparr>)))
   \<and> Call (PullsMerge 7 Merge) \<notin> set (fst (on_check_suite_completed test_world
      (test_payload\<lparr>pull_requests := [test_pr\<lparr>number := 7\<rparr>] @ [test_pr]\<rparr>)))"
proof -
  have n: "number test_pr = 1" by (simp add: test_pr_def)
  have m: "Call (PullsMerge 1 Merge) \<in> set (fst (on_check_suite_completed test_world
      (test_payload\<lparr>pull_requests := [test_pr]\<rparr>)))"
    by code_simp
  note th = only_last_pull_request [where w = test_world and p = test_payload
        and prs = "[test_pr\<lparr>number := 7\<rparr>]" and pr = test_pr]
  have no7: "Call (PullsMerge 7 Merge) \<notin> set (fst (on_check_suite_completed test_world
      (test_payload\<lparr>pull_requests := [test_pr\<lparr>number := 7\<rparr>] @ [test_pr]\<rparr>)))"
  proof
    assume "Call (PullsMerge 7 Merge) \<in> set (fst (on_check_suite_completed test_world
      (test_payload\<lparr>pull_requests := [test_pr\<lparr>number := 7\<rparr>] @ [test_pr]\<rparr>)))"
    then have "(7::int) = number test_pr" using th by blast
    then show False using n by simp
  qed
  show ?thesis using th n m no7 by simp
qed

section \<open>The check-status aggregation\<close>

text \<open>
  Claim C2, as stated: the aggregation is Pass when no required-status-check rule is
  configured, with the pending suites looked at only after that. It fails on the mocks of
  the test "should not merge a pull request if some checks are not completed": one valid
  suite in progress and no branch rule, where the stated definition gives Pass and the
  handler blocks the merge.
\<close>

theorem aggregation_as_stated_counterexample:
  "checks_listSuitesForRef pending_world (head_ref test_pr) =
     Inr \<lparr>total_count = 1,
          check_suites = [\<lparr>status = ''in_progress'', latest_check_runs_count = 1,
                           check_runs_url = ''runs/1''\<rparr>]\<rparr>
   \<and> repos_getBranchRules pending_world (base_ref test_pr) = Inr []
   \<and> request_check_runs pending_world ''runs/1'' = Inr []
   \<and> aggregate_as_stated
        \<lparr>total_count = 1,
         check_suites = [\<lparr>status = ''in_progress'', latest_check_runs_count = 1,
                          check_runs_url = ''runs/1''\<rparr>]\<rparr> [] no_runs = Pass
   \<and> check_status pending_world test_pr =
       ([Call (ChecksListSuitesForRef ''dependabot/npm_and_yarn/test/test-package-1.0.0''),
         Log (SuitesNotCompleted 1)], Inr False)"
proof -
  have a: "aggregate_as_stated
        \<lparr>total_count = 1,
         check_suites = [\<lparr>status = ''in_progress'', latest_check_runs_count = 1,
                          check_runs_url = ''runs/1''\<rparr>]\<rparr> [] no_runs = Pass"
    by (simp add: aggregate_as_stated_def required_checks_def no_runs_def)
  have c: "check_status pending_world test_pr =
       ([Call (ChecksListSuitesForRef ''dependabot/npm_and_yarn/test/test-package-1.0.0''),
         Log (SuitesNotCompleted 1)], Inr False)"
    by code_simp
  show ?thesis using a c by (simp add: pending_world_def test_world_def)
qed

text \<open>
  Claim C2, amended. When the reads succeed, the check-status block returns true exactly
  when the reference definition \<open>aggregate\<close> is Pass: Pass with no check suite or no valid
  suite; otherwise Pending when a valid suite is not completed, whether or not a rule is
  configured; otherwise Pass with no required check; otherwise Pass or Fail as every
  required name is among the names of the passed runs of the valid suites or not. The
  log line tells Pending from Fail.
\<close>

theorem check_status_aggregate:
  assumes sd: "checks_listSuitesForRef w (head_ref pr) = Inr sd"
    and rules: "repos_getBranchRules w (base_ref pr) = Inr rules"
    and runs: "\<forall>cs \<in> set (valid_suites sd).
                 request_check_runs w (check_runs_url cs) = Inr (runs (check_runs_url cs))"
  shows "snd (check_status w pr) = Inr (aggregate sd rules runs = Pass)
     \<and> (Log (SuitesNotCompleted (number pr)) \<in> set (fst (check_status w pr))
          \<longleftrightarrow> aggregate sd rules runs = Pending)
     \<and> (Log (ChecksNotPassed (number pr)) \<in> set (fst (check_status w pr))
          \<longleftrightarrow> aggregate sd rules runs = Fail)"
  unfolding check_status_unfold [OF sd rules runs] aggregate_def
  by auto

theorem check_status_aggregate_witness:
  "snd (check_status pending_world test_pr) = Inr False
   \<and> aggregate \<lparr>total_count = 1,
         check_suites = [\<lparr>status = ''in_progress'', latest_check_runs_count = 1,
                          check_runs_url = ''runs/1''\<rparr>]\<rparr> [] no_runs = Pending
   \<and> Log (SuitesNotCompleted 1) \<in> set (fst (check_status pending_world test_pr))"
proof -
  let ?sd = "\<lparr>total_count = 1,
         check_suites = [\<lparr>status = ''in_progress'', latest_check_runs_count = 1,
                          check_runs_url = ''runs/1''\<rparr>]\<rparr>"
  have sd: "checks_listSuitesForRef pending_world (head_ref test_pr) = Inr ?sd"
    by (simp add: pending_world_def)
  have rules: "repos_getBranchRules pending_world (base_ref test_pr) = Inr []"
    by (simp add: pending_world_def test_world_def)
  have runs: "\<forall>cs \<in> set (valid_suites ?sd).
      request_check_runs pending_world (check_runs_url cs) = Inr (no_runs (check_runs_url cs))"
    by (simp add: pending_world_def test_world_def no_runs_def)
  have a: "aggregate ?sd [] no_runs = Pending"
    by (simp add: aggregate_def valid_suites_def)
  have n: "number test_pr = 1" by (simp add: test_pr_def)
  show ?thesis
    using check_status_aggregate [OF sd rules runs] a n by simp
qed

section \<open>Errors in the configuration block\<close>

text \<open>
  Claim C3, as stated: an error of the content fetch other than 404 and other than a Zod
  error, and the error raised when the head branch names no ecosystem, reach the caller.
  Both are caught: the handler returns normally.
\<close>

theorem config_error_propagates_counterexample:
  "repos_getContent server_error_world test_head_ref ''.steward.yml'' = Inl (RequestError 500)
   \<and> on_check_suite_completed server_error_world test_payload =
       (test_header @ [Call (PullsListReviews 1), Call (PullsGet 1), Call (IssuesListComments 1),
          Call (ReposGetContent test_head_ref ''.steward.yml''),
          Log (Caught (RequestError 500))], None)
   \<and> find (includes_str (head_ref unmatched_pr)) ecosystems = None
   \<and> on_check_suite_completed test_world unmatched_payload =
       (test_header @ [Call (PullsListReviews 1), Call (PullsGet 1), Call (IssuesListComments 1),
          Call (ReposGetContent ''dependabot/update'' ''.steward.yml''),
          Log (Caught (Error ''Something went wrong''))], None)"
proof -
  have a: "repos_getContent server_error_world test_head_ref ''.steward.yml'' = Inl (RequestError 500)"
    by (simp add: server_error_world_def)
  have b: "on_check_suite_completed server_error_world test_payload =
       (test_header @ [Call (PullsListReviews 1), Call (PullsGet 1), Call (IssuesListComments 1),
          Call (ReposGetContent test_head_ref ''.steward.yml''),
          Log (Caught (RequestError 500))], None)"
    by code_simp
  have c: "find (includes_str (head_ref unmatched_pr)) ecosystems = None"
    by code_simp
  have d: "on_check_suite_completed test_world unmatched_payload =
       (test_header @ [Call (PullsListReviews 1), Call (PullsGet 1), Call (IssuesListComments 1),
          Call (ReposGetContent ''dependabot/update'' ''.steward.yml''),
          Log (Caught (Error ''Something went wrong''))], None)"
    by code_simp
  show ?thesis using a b c d by simp
qed

text \<open>
  Claim C3, amended. For a pull request that passes the first five guards, a content
  fetch that fails with an error other than 404 and other than a Zod error, and a head
  branch of which no catalog identifier is a substring (with a configuration that does
  not disable the steward), both end the evaluation as a veto: the error is logged, no
  comment, approval or merge is made, and no error reaches the caller.
\<close>

theorem other_config_errors_are_vetoes:
  assumes md: "repos_get w = Inr md" and mm: "resolve_merge_method md = Inr mm"
    and g: "first_five_guards_pass w p pr"
    and cs: "issues_listComments w (number pr) = Inr cs"
  shows
    "(\<forall>e. repos_getContent w (head_ref pr) stewardYmlFileName = Inl e
          \<and> error_status e \<noteq> Some 404 \<and> e \<noteq> ZodError \<longrightarrow>
        on_check_suite_completed w p =
          (header p @ [Call (PullsListReviews (number pr)), Call (PullsGet (number pr)),
                       Call (IssuesListComments (number pr)),
                       Call (ReposGetContent (head_ref pr) stewardYmlFileName),
                       Log (Caught e)], None))
   \<and> (\<forall>c y en. repos_getContent w (head_ref pr) stewardYmlFileName =
                   Inr (ContentObject ''file'' (Some c) (Some ''base64''))
          \<and> z_base64 w (filter (\<lambda>x. x \<noteq> CHR 0x0A) c)
          \<and> yaml_parse w (base64_to_utf8 w (filter (\<lambda>x. x \<noteq> CHR 0x0A) c)) = Inr y
          \<and> get_prop y ''enable'' = Inr en \<and> (en = JUndefined \<or> truthy en)
          \<and> (\<forall>e \<in> set ecosystems. \<not> (\<exists>a b. head_ref pr = a @ e @ b)) \<longrightarrow>
        on_check_suite_completed w p =
          (header p @ [Call (PullsListReviews (number pr)), Call (PullsGet (number pr)),
                       Call (IssuesListComments (number pr)),
                       Call (ReposGetContent (head_ref pr) stewardYmlFileName),
                       Log (Caught (Error ''Something went wrong''))], None))"
proof (intro conjI allI impI)
  fix e
  assume a: "repos_getContent w (head_ref pr) stewardYmlFileName = Inl e
          \<and> error_status e \<noteq> Some 404 \<and> e \<noteq> ZodError"
  have "steward_block w pr (Some stewardUserId \<in> set cs) =
      ([Call (ReposGetContent (head_ref pr) stewardYmlFileName)] @ [Log (Caught e)],
       Inr (Some False))"
    using a steward_try_fetch_error steward_block_caught by blast
  then show "on_check_suite_completed w p =
          (header p @ [Call (PullsListReviews (number pr)), Call (PullsGet (number pr)),
                       Call (IssuesListComments (number pr)),
                       Call (ReposGetContent (head_ref pr) stewardYmlFileName),
                       Log (Caught e)], None)"
    using run_veto [OF md mm processMerge_config_veto [OF g cs]] by simp
next
  fix c y en
  assume a: "repos_getContent w (head_ref pr) stewardYmlFileName =
                   Inr (ContentObject ''file'' (Some c) (Some ''base64''))
          \<and> z_base64 w (filter (\<lambda>x. x \<noteq> CHR 0x0A) c)
          \<and> yaml_parse w (base64_to_utf8 w (filter (\<lambda>x. x \<noteq> CHR 0x0A) c)) = Inr y
          \<and> get_prop y ''enable'' = Inr en \<and> (en = JUndefined \<or> truthy en)
          \<and> (\<forall>e \<in> set ecosystems. \<not> (\<exists>a b. head_ref pr = a @ e @ b))"
  then have f: "find (includes_str (head_ref pr)) ecosystems = None"
    unfolding find_None_ecosystems by blast
  have "steward_try w pr (Some stewardUserId \<in> set cs) =
     ([Call (ReposGetContent (head_ref pr) stewardYmlFileName)],
      Inl (Error ''Something went wrong''))"
    using a f steward_try_unmatched by blast
  then have "steward_block w pr (Some stewardUserId \<in> set cs) =
      ([Call (ReposGetContent (head_ref pr) stewardYmlFileName)]
         @ [Log (Caught (Error ''Something went wrong''))], Inr (Some False))"
    by (rule steward_block_caught) simp_all
  then show "on_check_suite_completed w p =
          (header p @ [Call (PullsListReviews (number pr)), Call (PullsGet (number pr)),
                       Call (IssuesListComments (number pr)),
                       Call (ReposGetContent (head_ref pr) stewardYmlFileName),
                       Log (Caught (Error ''Something went wrong''))], None)"
    using run_veto [OF md mm processMerge_config_veto [OF g cs]] by simp
qed

theorem other_config_errors_are_vetoes_witness:
  "first_five_guards_pass server_error_world test_payload test_pr
   \<and> on_check_suite_completed server_error_world test_payload =
       (test_header @ [Call (PullsListReviews 1), Call (PullsGet 1), Call (IssuesListComments 1),
          Call (ReposGetContent test_head_ref ''.steward.yml''),
          Log (Caught (RequestError 500))], None)
   \<and> first_five_guards_pass test_world unmatched_payload unmatched_pr
   \<and> on_check_suite_completed test_world unmatched_payload =
       (test_header @ [Call (PullsListReviews 1), Call (PullsGet 1), Call (IssuesListComments 1),
          Call (ReposGetContent ''dependabot/update'' ''.steward.yml''),
          Log (Caught (Error ''Something went wrong''))], None)"
proof -
  let ?md = "\<lparr>allow_merge_commit = Some True, allow_squash_merge = None,
            allow_rebase_merge = None\<rparr>"
  have md: "repos_get server_error_world = Inr ?md"
    by (simp add: server_error_world_def test_world_def)
  have g: "first_five_guards_pass server_error_world test_payload test_pr"
    by (simp add: first_five_guards_pass_def server_error_world_def test_world_def
        test_payload_def pop_def test_pr_def)
  have cs: "issues_listComments server_error_world (number test_pr) = Inr []"
    by (simp add: server_error_world_def test_world_def)
  have e: "repos_getContent server_error_world (head_ref test_pr) stewardYmlFileName
      = Inl (RequestError 500)"
    by (simp add: server_error_world_def)
  have hd: "header test_payload = test_header" "number test_pr = 1"
    "head_ref test_pr = test_head_ref" "stewardYmlFileName = ''.steward.yml''"
    by (simp_all add: header_def test_header_def test_payload_def test_pr_def test_head_ref_def
        stewardYmlFileName_def)
  have first: "on_check_suite_completed server_error_world test_payload =
       (test_header @ [Call (PullsListReviews 1), Call (PullsGet 1), Call (IssuesListComments 1),
          Call (ReposGetContent test_head_ref ''.steward.yml''),
          Log (Caught (RequestError 500))], None)"
    using other_config_errors_are_vetoes [OF md test_world_method(2) g cs] e hd by simp
  have g': "first_five_guards_pass test_world unmatched_payload unmatched_pr"
    by (simp add: first_five_guards_pass_def test_world_def unmatched_payload_def
        unmatched_pr_def test_payload_def pop_def test_pr_def)
  have cs': "issues_listComments test_world (number unmatched_pr) = Inr []"
    by (simp add: test_world_def)
  have hd': "header unmatched_payload = test_header" "number unmatched_pr = 1"
    "head_ref unmatched_pr = ''dependabot/update''"
    by (simp_all add: header_def test_header_def unmatched_payload_def unmatched_pr_def
        test_payload_def test_pr_def)
  have doc: "repos_getContent test_world (head_ref unmatched_pr) stewardYmlFileName =
      Inr (ContentObject ''file'' (Some ''ZW5hYmxlOiB0cnVl'') (Some ''base64''))"
    "z_base64 test_world (filter (\<lambda>x. x \<noteq> CHR 0x0A) ''ZW5hYmxlOiB0cnVl'')"
    "yaml_parse test_world (base64_to_utf8 test_world (filter (\<lambda>x. x \<noteq> CHR 0x0A) ''ZW5hYmxlOiB0cnVl''))
       = Inr (JObj [(''enable'', JBool True)])"
    "get_prop (JObj [(''enable'', JBool True)]) ''enable'' = Inr (JBool True)"
    "JBool True = JUndefined \<or> truthy (JBool True)"
    by (simp_all add: test_world_def test_base64_to_utf8_def test_yaml_parse_def)
  have "find (includes_str (head_ref unmatched_pr)) ecosystems = None" by code_simp
  then have none: "\<forall>e \<in> set ecosystems. \<not> (\<exists>a b. head_ref unmatched_pr = a @ e @ b)"
    by (simp only: find_None_ecosystems)
  have second: "on_check_suite_completed test_world unmatched_payload =
       (test_header @ [Call (PullsListReviews 1), Call (PullsGet 1), Call (IssuesListComments 1),
          Call (ReposGetContent ''dependabot/update'' ''.steward.yml''),
          Log (Caught (Error ''Something went wrong''))], None)"
    using other_config_errors_are_vetoes [OF test_world_method g' cs'] doc none hd' hd(4)
    by simp
  show ?thesis using g first g' second by simp
qed

section \<open>A configuration with an \<^verbatim>\<open>enable\<close> that is not boolean\<close>

text \<open>
  Claim C4. With the document \<^verbatim>\<open>enable: "true"\<close> of the test suite the handler posts no
  comment and vetoes nothing: the string is truthy, and the pull request is approved and
  merged.
\<close>

theorem string_enable_is_merged:
  "repos_getContent string_enable_world test_head_ref ''.steward.yml'' =
     Inr (ContentObject ''file'' (Some ''ZW5hYmxlOiAidHJ1ZSI='') (Some ''base64''))
   \<and> yaml_parse string_enable_world (base64_to_utf8 string_enable_world ''ZW5hYmxlOiAidHJ1ZSI='')
       = Inr (JObj [(''enable'', JStr ''true'')])
   \<and> on_check_suite_completed string_enable_world test_payload =
       (test_header @ [Call (PullsListReviews 1), Call (PullsGet 1), Call (IssuesListComments 1),
          Call (ReposGetContent test_head_ref ''.steward.yml''),
          Call (ChecksListSuitesForRef test_head_ref),
          Call (PullsCreateReview 1 ''APPROVE''), Call (PullsMerge 1 Merge),
          Log (MergedSuccessfully 1 Merge)], None)"
proof -
  have a: "repos_getContent string_enable_world test_head_ref ''.steward.yml'' =
     Inr (ContentObject ''file'' (Some ''ZW5hYmxlOiAidHJ1ZSI='') (Some ''base64''))"
    by (simp add: string_enable_world_def)
  have b: "yaml_parse string_enable_world (base64_to_utf8 string_enable_world ''ZW5hYmxlOiAidHJ1ZSI='')
       = Inr (JObj [(''enable'', JStr ''true'')])"
    by (simp add: string_enable_world_def test_world_def test_base64_to_utf8_def test_yaml_parse_def
        enable_string_true_def)
  have c: "on_check_suite_completed string_enable_world test_payload =
       (test_header @ [Call (PullsListReviews 1), Call (PullsGet 1), Call (IssuesListComments 1),
          Call (ReposGetContent test_head_ref ''.steward.yml''),
          Call (ChecksListSuitesForRef test_head_ref),
          Call (PullsCreateReview 1 ''APPROVE''), Call (PullsMerge 1 Merge),
          Log (MergedSuccessfully 1 Merge)], None)"
    by code_simp
  show ?thesis using a b c by simp
qed

section \<open>Replaying an event after the merge\<close>

text \<open>
  Claim C5, as stated: the replay of an all-conditions-satisfied event after a successful
  approve-and-merge ends at the already-merged guard. On the default mocks of the test
  suite the first evaluation approves and merges; in the world after it the pull request
  is merged, and the replay ends one guard earlier, at the review by the steward account,
  without reading the pull request at all.
\<close>

theorem replay_at_merged_guard_counterexample:
  "on_check_suite_completed test_world test_payload =
     (test_header @ [Call (PullsListReviews 1), Call (PullsGet 1), Call (IssuesListComments 1),
        Call (ReposGetContent test_head_ref ''.steward.yml''),
        Call (ChecksListSuitesForRef test_head_ref),
        Call (PullsCreateReview 1 ''APPROVE''), Call (PullsMerge 1 Merge),
        Log (MergedSuccessfully 1 Merge)], None)
   \<and> pulls_get (after_approve_and_merge test_world 1) 1 =
       Inr \<lparr>merged = True, user_id = dependabotUserId\<rparr>
   \<and> on_check_suite_completed (after_approve_and_merge test_world 1) test_payload =
       (test_header @ [Call (PullsListReviews 1), Log (AlreadyReviewed 1)], None)"
proof -
  have a: "on_check_suite_completed test_world test_payload =
     (test_header @ [Call (PullsListReviews 1), Call (PullsGet 1), Call (IssuesListComments 1),
        Call (ReposGetContent test_head_ref ''.steward.yml''),
        Call (ChecksListSuitesForRef test_head_ref),
        Call (PullsCreateReview 1 ''APPROVE''), Call (PullsMerge 1 Merge),
        Log (MergedSuccessfully 1 Merge)], None)"
    by code_simp
  have b: "pulls_get (after_approve_and_merge test_world 1) 1 =
       Inr \<lparr>merged = True, user_id = dependabotUserId\<rparr>"
    by (simp add: after_approve_and_merge_def test_world_def)
  have c: "on_check_suite_completed (after_approve_and_merge test_world 1) test_payload =
       (test_header @ [Call (PullsListReviews 1), Log (AlreadyReviewed 1)], None)"
    by code_simp
  show ?thesis using a b c by simp
qed

text \<open>
  Claim C5, amended. When an evaluation allows the merge and its approval and merge
  succeed, the replay of the same event in the world after them ends at the
  already-reviewed guard: it lists the reviews, logs that the pull request is already
  reviewed by the steward, and makes no new review or merge call.
\<close>

theorem replay_stops_at_review_guard:
  assumes md: "repos_get w = Inr md" and mm: "resolve_merge_method md = Inr mm"
    and allow: "snd (snd (processMerge w p)) = Inr True"
    and n: "n = number (last (pull_requests p))"
    and approved: "pulls_createReview w n = Inr ()"
    and merged: "pulls_merge w n mm = Inr ()"
  shows "on_check_suite_completed (after_approve_and_merge w n) p =
           (header p @ [Call (PullsListReviews n), Log (AlreadyReviewed n)], None)"
proof -
  obtain pr rs where pr: "pop (pull_requests p) = Some pr" "base_repo_id pr = head_repo_id pr"
    and rs: "pulls_listReviews w (number pr) = Inr rs" and npr: "number pr = n"
    using processMerge_allow [OF allow] n by auto
  let ?w = "after_approve_and_merge w n"
  have md': "repos_get ?w = Inr md" using md by (simp add: after_approve_and_merge_def)
  have rs': "pulls_listReviews ?w (number pr) = Inr (rs @ [Some stewardUserId])"
    using rs npr by (simp add: after_approve_and_merge_def)
  have "guards_of_pr ?w pr =
      ([Call (PullsListReviews (number pr)), Log (AlreadyReviewed (number pr))], Inr False)"
    using rs' by (rule guard_reviewed) simp
  then have "processMerge ?w p =
      ([Call (PullsListReviews n), Log (AlreadyReviewed n)], Some n, Inr False)"
    using processMerge_same_repo [OF pr, of ?w] npr by simp
  then show ?thesis by (rule run_veto [OF md' mm])
qed

theorem replay_stops_at_review_guard_witness:
  "snd (snd (processMerge test_world test_payload)) = Inr True
   \<and> on_check_suite_completed (after_approve_and_merge test_world 1) test_payload =
       (test_header @ [Call (PullsListReviews 1), Log (AlreadyReviewed 1)], None)"
proof -
  have allow: "snd (snd (processMerge test_world test_payload)) = Inr True" by code_simp
  have n: "(1::int) = number (last (pull_requests test_payload))"
    by (simp add: test_payload_def test_pr_def)
  have r: "pulls_createReview test_world 1 = Inr ()" "pulls_merge test_world 1 Merge = Inr ()"
    by (simp_all add: test_world_def)
  have hd: "header test_payload = test_header"
    by (simp add: header_def test_header_def test_payload_def)
  show ?thesis
    using replay_stops_at_review_guard [OF test_world_method allow n r] allow hd by simp
qed

section \<open>The advisory comment\<close>

text \<open>
  Claim C7. An evaluation posts no comment on a pull request that already holds a comment
  of the steward account; it posts at most one comment; and when it has posted one on a
  pull request, the next evaluation of the same event, in the world that holds that
  comment, posts none.
\<close>

theorem advisory_comment_once:
  "(has_steward_comment w n \<longrightarrow>
      (\<forall>body. Call (IssuesCreateComment n body) \<notin> set (fst (on_check_suite_completed w p))))
   \<and> length (filter is_comment (fst (on_check_suite_completed w p))) \<le> 1
   \<and> (\<forall>body. Call (IssuesCreateComment n body) \<in> set (fst (on_check_suite_completed w p)) \<longrightarrow>
        filter is_comment (fst (on_check_suite_completed (after_comment w n) p)) = [])"
proof (intro conjI allI impI)
  fix body
  assume h: "has_steward_comment w n"
  show "Call (IssuesCreateComment n body) \<notin> set (fst (on_check_suite_completed w p))"
  proof
    assume "Call (IssuesCreateComment n body) \<in> set (fst (on_check_suite_completed w p))"
    then have "Call (IssuesCreateComment n body) \<in> set (fst (processMerge w p))"
      by (rule run_comment_event) simp
    then obtain cs where "issues_listComments w n = Inr cs" "Some stewardUserId \<notin> set cs"
      using processMerge_comment_of by blast
    then show False using h by (simp add: has_steward_comment_def)
  qed
next
  show "length (filter is_comment (fst (on_check_suite_completed w p))) \<le> 1"
    using run_comments [of w p] processMerge_comments [of w p]
    by (cases "filter is_comment (fst (on_check_suite_completed w p)) = []") simp_all
next
  fix body
  assume "Call (IssuesCreateComment n body) \<in> set (fst (on_check_suite_completed w p))"
  then have "Call (IssuesCreateComment n body) \<in> set (fst (processMerge w p))"
    by (rule run_comment_event) simp
  then obtain pr cs where pr: "pop (pull_requests p) = Some pr" "n = number pr"
      and cs: "issues_listComments w n = Inr cs"
    using processMerge_comment_of by blast
  let ?w = "after_comment w n"
  have after: "issues_listComments ?w (number pr) = Inr (cs @ [Some stewardUserId])"
    using pr cs by (simp add: after_comment_def)
  have "\<not> is_comment e" if e: "e \<in> set (fst (on_check_suite_completed ?w p))" for e
  proof
    assume c: "is_comment e"
    then have "e \<in> set (fst (processMerge ?w p))" using e by (rule run_comment_event [rotated])
    then obtain pr' cs' where "pop (pull_requests p) = Some pr'"
        "issues_listComments ?w (number pr') = Inr cs'" "Some stewardUserId \<notin> set cs'"
      using processMerge_suppressed [of e ?w p] c by auto
    then show False using pr after by simp
  qed
  then show "filter is_comment (fst (on_check_suite_completed ?w p)) = []"
    by (simp add: filter_empty_conv)
qed

theorem advisory_comment_once_witness:
  "Call (IssuesCreateComment 1 must_be_a_file)
      \<in> set (fst (on_check_suite_completed dir_world test_payload))
   \<and> length (filter is_comment (fst (on_check_suite_completed dir_world test_payload))) \<le> 1
   \<and> has_steward_comment (after_comment dir_world 1) 1
   \<and> filter is_comment (fst (on_check_suite_completed (after_comment dir_world 1) test_payload)) = []"
proof -
  have a: "Call (IssuesCreateComment 1 must_be_a_file)
      \<in> set (fst (on_check_suite_completed dir_world test_payload))"
    by code_simp
  have b: "has_steward_comment (after_comment dir_world 1) 1"
    by (simp add: has_steward_comment_def after_comment_def dir_world_def test_world_def)
  show ?thesis
    using advisory_comment_once [of dir_world 1 test_payload] a b by blast
qed

end
